theory Spec2Isabelle
  imports Complex_Main "HOL-Library.AList" "HOL-Library.Log_Nat"
begin

section \<open>Data model\<close>

text \<open>
  Samples are float32 values in the source; every float is a rational number, so a sample
  is a \<open>rat\<close>. Python's unbounded integers are \<open>int\<close>; lengths are \<open>nat\<close>.
\<close>

type_synonym sample = rat

text \<open>\<open>VadState\<close>: both markers start as \<open>None\<close>.\<close>

record VadState =
  audio_start_ms :: "int option"
  audio_end_ms :: "int option"

text \<open>
  Modelled from the spec: the class \<open>InputAudioBuffer\<close> (module
  \<open>speaches.realtime.input_audio_buffer\<close>) is imported by the router but is not among the
  source files. The spec gives it an identity \<open>id\<close>, the sample sequence \<open>data\<close>, the
  mutable \<open>vad_state\<close>, the derived \<open>size\<close> (sample count) and \<open>duration_ms\<close> (size
  divided by the samples per millisecond, an integer), and an append that extends \<open>data\<close>.
\<close>

record InputAudioBuffer =
  buf_id :: string
  data :: "sample list"
  vad_state :: VadState

definition SAMPLE_RATE :: int where
  "SAMPLE_RATE = 16000"

definition MS_SAMPLE_RATE :: int where
  "MS_SAMPLE_RATE = 16"

definition MAX_VAD_WINDOW_SIZE_SAMPLES :: nat where
  "MAX_VAD_WINDOW_SIZE_SAMPLES = 3000 * 16"

definition size_buf :: "InputAudioBuffer \<Rightarrow> nat" where
  "size_buf b = length (data b)"

definition duration_ms :: "InputAudioBuffer \<Rightarrow> int" where
  "duration_ms b = int (size_buf b) div MS_SAMPLE_RATE"

definition append_buf :: "sample list \<Rightarrow> InputAudioBuffer \<Rightarrow> InputAudioBuffer" where
  "append_buf audio_chunk b = b\<lparr>data := data b @ audio_chunk\<rparr>"

text \<open>\<open>InputAudioBuffer()\<close>: a new empty buffer; its id is the one generated at creation.\<close>

definition new_InputAudioBuffer :: "string \<Rightarrow> InputAudioBuffer" where
  "new_InputAudioBuffer new_id =
     \<lparr>buf_id = new_id, data = [],
      vad_state = \<lparr>audio_start_ms = None, audio_end_ms = None\<rparr>\<rparr>"

text \<open>\<open>TurnDetection\<close>, with the fields \<open>create_session_configuration\<close> sets.\<close>

record TurnDetection =
  threshold :: rat
  prefix_padding_ms :: int
  silence_duration_ms :: int
  create_response :: bool

text \<open>The options handed to the external VAD, and one span of its answer.\<close>

record VadOptions =
  vad_threshold :: rat
  min_silence_duration_ms :: int
  speech_pad_ms :: int

record SpeechTimestamp =
  start_ts :: int
  end_ts :: int

text \<open>
  The external VAD capability \<open>get_speech_timestamps\<close> is a parameter of the model: any
  function from a window and options to a list of spans.
\<close>

type_synonym vad = "sample list \<Rightarrow> VadOptions \<Rightarrow> SpeechTimestamp list"

datatype Error = Error (error_type: string) (error_message: string)

text \<open>
  \<open>ConversationItem\<close>; an entry of \<open>ci_content\<close> is the transcript and the type of a
  \<open>ConversationItemContent\<close>.
\<close>

record ConversationItem =
  ci_id :: string
  ci_object :: string
  ci_status :: string
  ci_role :: string
  ci_content :: "(string option \<times> string) list"
  ci_type :: string

text \<open>The events of the router; the first argument of each is its \<open>event_id\<close>.\<close>

datatype event =
    InputAudioBufferSpeechStartedEvent string (item_id: string) int
  | InputAudioBufferSpeechStoppedEvent string (item_id: string) int
  | InputAudioBufferCommittedEvent string (previous_item_id: "string option") (item_id: string)
  | InputAudioBufferClearedEvent string
  | ErrorEvent string Error
  | ConversationItemCreatedEvent string "string option" ConversationItem

datatype error =
  StopIteration | KeyError | ValueError | ZeroDivisionError | OverflowError | ValidationError

text \<open>
  Modelled from the spec: \<open>SessionContext\<close> (module \<open>speaches.realtime.context\<close>) is not
  among the source files. The handlers use its insertion-ordered mapping
  \<open>input_audio_buffers\<close> from buffer id to buffer (the most recently inserted entry is the
  active buffer), the insertion-ordered \<open>conversation\<close>, the outbound channel \<open>pubsub\<close> (here
  the list of the events published so far, oldest first) and
  \<open>configuration.turn_detection\<close>. An insertion-ordered mapping is an association list
  whose keys are distinct, oldest entry first.
\<close>

record SessionContext =
  input_audio_buffers :: "(string \<times> InputAudioBuffer) list"
  conversation :: "(string \<times> ConversationItem) list"
  pubsub :: "event list"
  turn_detection :: "TurnDetection option"

definition publish_nowait :: "event \<Rightarrow> SessionContext \<Rightarrow> SessionContext" where
  "publish_nowait e ctx = ctx\<lparr>pubsub := pubsub ctx @ [e]\<rparr>"

text \<open>\<open>next(reversed(d), None)\<close>: the key inserted last, \<open>None\<close> for an empty mapping.\<close>

definition last_key :: "('k \<times> 'v) list \<Rightarrow> 'k option" where
  "last_key d = (if d = [] then None else Some (fst (last d)))"

text \<open>\<open>d[k] = v\<close>: an existing key keeps its place, a new key goes to the end.\<close>

definition dict_set :: "'k \<Rightarrow> 'v \<Rightarrow> ('k \<times> 'v) list \<Rightarrow> ('k \<times> 'v) list" where
  "dict_set k v d = AList.update k v d"

section \<open>Turn detection\<close>

definition empty_input_audio_buffer_commit_error :: Error where
  "empty_input_audio_buffer_commit_error =
     Error ''invalid_request_error''
       ''Error committing input audio buffer: the buffer is empty.''"

definition to_ms_speech_timestamps :: "SpeechTimestamp list \<Rightarrow> SpeechTimestamp list" where
  "to_ms_speech_timestamps speech_timestamps =
     map (\<lambda>t. \<lparr>start_ts = start_ts t div MS_SAMPLE_RATE, end_ts = end_ts t div MS_SAMPLE_RATE\<rparr>)
       speech_timestamps"

text \<open>\<open>data[-MAX_VAD_WINDOW_SIZE_SAMPLES:]\<close>: the whole sequence when it is not longer.\<close>

definition audio_window_of :: "InputAudioBuffer \<Rightarrow> sample list" where
  "audio_window_of b = drop (length (data b) - MAX_VAD_WINDOW_SIZE_SAMPLES) (data b)"

definition vad_options_of :: "TurnDetection \<Rightarrow> VadOptions" where
  "vad_options_of td =
     \<lparr>vad_threshold = threshold td,
      min_silence_duration_ms = silence_duration_ms td,
      speech_pad_ms = prefix_padding_ms td\<rparr>"

text \<open>
  \<open>vad_detection_flow\<close>. The result is the returned event (if any), the buffer with its
  updated \<open>vad_state\<close>, and the windows on which the external VAD was called, in order.
  \<open>event_id\<close> is the id that \<open>generate_item_id()\<close> returns on the paths that build an event.
\<close>

definition stop_speech ::
  "string \<Rightarrow> InputAudioBuffer \<Rightarrow> TurnDetection \<Rightarrow> event option \<times> InputAudioBuffer" where
  "stop_speech event_id b td =
     (let e = duration_ms b - prefix_padding_ms td
      in (Some (InputAudioBufferSpeechStoppedEvent event_id (buf_id b) e),
          b\<lparr>vad_state := (vad_state b)\<lparr>audio_end_ms := Some e\<rparr>\<rparr>))"

definition vad_detection_flow ::
  "vad \<Rightarrow> string \<Rightarrow> InputAudioBuffer \<Rightarrow> TurnDetection
     \<Rightarrow> (event option \<times> InputAudioBuffer) \<times> sample list list" where
  "vad_detection_flow get_speech_timestamps event_id b td =
     (let audio_window = audio_window_of b;
          speech_timestamps =
            to_ms_speech_timestamps (get_speech_timestamps audio_window (vad_options_of td));
          speech_timestamp =
            (if length speech_timestamps > 0 then Some (last speech_timestamps) else None)
      in ((case audio_start_ms (vad_state b) of
             None \<Rightarrow>
               (case speech_timestamp of
                  None \<Rightarrow> (None, b)
                | Some t \<Rightarrow>
                    (let s = duration_ms b - int (length audio_window) div MS_SAMPLE_RATE
                               + start_ts t
                     in (Some (InputAudioBufferSpeechStartedEvent event_id (buf_id b) s),
                         b\<lparr>vad_state := (vad_state b)\<lparr>audio_start_ms := Some s\<rparr>\<rparr>)))
           | Some _ \<Rightarrow>
               (case speech_timestamp of
                  None \<Rightarrow> stop_speech event_id b td
                | Some t \<Rightarrow>
                    if end_ts t < 3000 \<and> duration_ms b > 3000
                    then stop_speech event_id b td
                    else (None, b))),
          [audio_window]))"

text \<open>Two VADs for concrete runs: one that hears nothing, one that reports a single span.\<close>

definition no_speech :: vad where
  "no_speech = (\<lambda>w opts. [])"

definition one_span :: "int \<Rightarrow> int \<Rightarrow> vad" where
  "one_span s e = (\<lambda>w opts. [\<lparr>start_ts = s, end_ts = e\<rparr>])"

section \<open>Resampling\<close>

text \<open>
  Python's \<open>float\<close> is IEEE binary64. \<open>fl64 x\<close> is the binary64 number nearest to the
  rational \<open>x\<close>, ties to the even significand: with \<open>2 ^ e \<le> |x| < 2 ^ (e + 1)\<close>, and \<open>e\<close> at
  least \<open>-1022\<close> (below that the numbers are subnormal, all spaced \<open>2 ^ -1074\<close> apart), the
  significand \<open>|x| / 2 ^ (e - 52)\<close> is rounded to an integer. A rounded magnitude of
  \<open>2 ^ 1024\<close> or more is beyond the largest binary64 number: \<open>x\<close> overflows.
\<close>

definition round_half_even :: "rat \<Rightarrow> int" where
  "round_half_even x =
     (let f = \<lfloor>x\<rfloor>; d = x - of_int f
      in if d < 1 / 2 then f else if 1 / 2 < d then f + 1 else if even f then f else f + 1)"

definition floor_log2 :: "rat \<Rightarrow> int" where
  "floor_log2 x =
     (case quotient_of x of (p, q) \<Rightarrow>
        (let e0 = bitlen p - bitlen q in if 2 powi e0 \<le> x then e0 else e0 - 1))"

definition fl64 :: "rat \<Rightarrow> rat" where
  "fl64 x =
     (if x = 0 then 0
      else (let e = max (floor_log2 \<bar>x\<bar>) (- 1022);
                m = round_half_even (\<bar>x\<bar> * 2 powi (52 - e))
            in sgn x * of_int m * 2 powi (e - 52)))"

definition overflows :: "rat \<Rightarrow> bool" where
  "overflows x = (2 ^ 1024 \<le> \<bar>fl64 x\<bar>)"

text \<open>
  \<open>a / b\<close> of two integers raises \<open>ZeroDivisionError\<close> for \<open>b = 0\<close> and \<open>OverflowError\<close> when
  the quotient is too large for a float; otherwise it is the correctly rounded quotient.
\<close>

definition int_truediv :: "int \<Rightarrow> int \<Rightarrow> error + rat" where
  "int_truediv a b =
     (if b = 0 then Inl ZeroDivisionError
      else if overflows (of_int a / of_int b) then Inl OverflowError
      else Inr (fl64 (of_int a / of_int b)))"

text \<open>
  The conversion of an integer to a float, as in the product of an integer and a float:
  \<open>OverflowError\<close> when the integer is too large.
\<close>

definition float_of :: "int \<Rightarrow> error + rat" where
  "float_of n = (if overflows (of_int n) then Inl OverflowError else Inr (fl64 (of_int n)))"

text \<open>\<open>int(x)\<close> of a finite float: truncation towards zero.\<close>

definition python_int :: "rat \<Rightarrow> int" where
  "python_int x = (if 0 \<le> x then \<lfloor>x\<rfloor> else \<lceil>x\<rceil>)"

text \<open>
  \<open>int(x * y)\<close> of two floats: a product that overflows is an infinity, which \<open>int\<close>
  refuses with \<open>OverflowError\<close>.
\<close>

definition int_of_product :: "rat \<Rightarrow> rat \<Rightarrow> error + int" where
  "int_of_product x y =
     (if overflows (x * y) then Inl OverflowError else Inr (python_int (fl64 (x * y))))"

text \<open>
  Lines 51 and 52 of \<open>resample_audio_data\<close>: the ratio, then the target length.
\<close>

definition target_length_of :: "nat \<Rightarrow> int \<Rightarrow> int \<Rightarrow> error + int" where
  "target_length_of n sample_rate target_sample_rate =
     (case int_truediv target_sample_rate sample_rate of
        Inl e \<Rightarrow> Inl e
      | Inr ratio \<Rightarrow>
          (case float_of (int n) of
             Inl e \<Rightarrow> Inl e
           | Inr len \<Rightarrow> int_of_product len ratio))"

text \<open>
  numpy computes the inner positions of \<open>np.linspace\<close> and the interpolated values of
  \<open>np.interp\<close> in floating point, with a rounding that depends on the order of its
  operations and on the machine, and the source then casts the values to float32. These
  numbers are parameters of the model: \<open>linspace_at np start stop num i\<close> is the number
  that \<open>np.linspace(start, stop, num)\<close> holds at an inner index \<open>i\<close>, and
  \<open>interp_value np fp x\<close> is the float32 number that
  \<open>np.interp(x, np.arange(len(fp)), fp).astype(np.float32)\<close> holds for a position \<open>x\<close>
  strictly between \<open>0\<close> and \<open>len(fp) - 1\<close>. What no rounding touches is fixed by the model: the
  lengths, the first position (\<open>start\<close>), the last position (\<open>stop\<close>, which numpy stores as
  it is), and the sample returned at or beyond either end of the input (the first or the
  last input sample, float32 numbers already).
\<close>

record numpy =
  linspace_at :: "rat \<Rightarrow> rat \<Rightarrow> nat \<Rightarrow> nat \<Rightarrow> rat"
  interp_value :: "sample list \<Rightarrow> rat \<Rightarrow> sample"

text \<open>
  \<open>np.linspace(start, stop, num)\<close> with the endpoint included; a negative \<open>num\<close> raises.
\<close>

definition np_linspace :: "numpy \<Rightarrow> rat \<Rightarrow> rat \<Rightarrow> int \<Rightarrow> error + rat list" where
  "np_linspace np start stop num =
     (if num < 0 then Inl ValueError
      else (let n = nat num
            in Inr (map (\<lambda>i. if i = 0 then start
                            else if i = n - 1 then stop
                            else linspace_at np start stop n i)
                      [0..<n])))"

text \<open>
  \<open>np.interp(x, np.arange(len(fp)), fp).astype(np.float32)\<close> at one position \<open>x\<close>.
\<close>

definition interp_at :: "numpy \<Rightarrow> sample list \<Rightarrow> rat \<Rightarrow> sample" where
  "interp_at np fp x =
     (if x \<le> 0 then hd fp
      else if of_nat (length fp - 1) \<le> x then last fp
      else interp_value np fp x)"

text \<open>\<open>np.interp\<close> raises on an empty array of sample points, whatever \<open>x\<close> is.\<close>

definition np_interp :: "numpy \<Rightarrow> rat list \<Rightarrow> sample list \<Rightarrow> error + sample list" where
  "np_interp np xs fp = (if fp = [] then Inl ValueError else Inr (map (interp_at np fp) xs))"

text \<open>
  \<open>resample_audio_data\<close>. The ratio and the target length are computed in binary64 as the
  source does; \<open>len(data)\<close> reaches \<open>np.linspace\<close> as a float.
\<close>

definition resample_audio_data ::
  "numpy \<Rightarrow> sample list \<Rightarrow> int \<Rightarrow> int \<Rightarrow> error + sample list" where
  "resample_audio_data np samples sample_rate target_sample_rate =
     (case target_length_of (length samples) sample_rate target_sample_rate of
        Inl e \<Rightarrow> Inl e
      | Inr target_length \<Rightarrow>
          (case np_linspace np 0 (fl64 (of_nat (length samples))) target_length of
             Inl e \<Rightarrow> Inl e
           | Inr xs \<Rightarrow> np_interp np xs samples))"

text \<open>
  The numbers of exact arithmetic in place of numpy's rounded ones, for concrete runs.
\<close>

definition real_arith :: numpy where
  "real_arith =
     \<lparr>linspace_at = (\<lambda>start stop n i. start + of_nat i * ((stop - start) / of_nat (n - 1))),
      interp_value = (\<lambda>fp x. (fp ! (nat \<lfloor>x\<rfloor> + 1) - fp ! nat \<lfloor>x\<rfloor>) * (x - of_int \<lfloor>x\<rfloor>)
                                + fp ! nat \<lfloor>x\<rfloor>)\<rparr>"




section \<open>Client and server event handlers\<close>

text \<open>
  The constructor of \<open>InputAudioBufferCommittedEvent\<close> validates its fields, and
  \<open>previous_item_id\<close> is required: \<open>None\<close> for it raises \<open>ValidationError\<close>. The source says so
  in \<open>handle_input_audio_buffer_speech_stopped\<close>, which passes a placeholder to avoid that
  error, and silences the type checker on the same argument in
  \<open>handle_input_audio_buffer_commit\<close>.
\<close>

definition new_InputAudioBufferCommittedEvent ::
  "string \<Rightarrow> string option \<Rightarrow> string \<Rightarrow> error + event" where
  "new_InputAudioBufferCommittedEvent event_id prev committed_id =
     (case prev of
        None \<Rightarrow> Inl ValidationError
      | Some p \<Rightarrow> Inr (InputAudioBufferCommittedEvent event_id (Some p) committed_id))"

text \<open>
  \<open>handle_input_audio_buffer_commit\<close>. \<open>event_id\<close> is what \<open>generate_event_id()\<close> returns,
  \<open>gen_item_id\<close> what \<open>generate_item_id()\<close> returns, \<open>new_id\<close> the id of the buffer that
  \<open>InputAudioBuffer()\<close> creates. \<open>next(reversed(d))\<close> on an empty mapping raises. The event is
  built before it is published, so an event that fails validation leaves the context as it
  was.
\<close>

definition handle_input_audio_buffer_commit ::
  "string \<Rightarrow> string \<Rightarrow> string \<Rightarrow> SessionContext \<Rightarrow> error + SessionContext" where
  "handle_input_audio_buffer_commit event_id gen_item_id new_id ctx =
     (case last_key (input_audio_buffers ctx) of
        None \<Rightarrow> Inl StopIteration
      | Some input_audio_buffer_id \<Rightarrow>
          (case map_of (input_audio_buffers ctx) input_audio_buffer_id of
             None \<Rightarrow> Inl KeyError
           | Some input_audio_buffer \<Rightarrow>
               if size_buf input_audio_buffer = 0
               then Inr (publish_nowait
                           (ErrorEvent event_id empty_input_audio_buffer_commit_error) ctx)
               else
                 (case new_InputAudioBufferCommittedEvent gen_item_id
                         (last_key (conversation ctx)) input_audio_buffer_id of
                    Inl e \<Rightarrow> Inl e
                  | Inr committed \<Rightarrow>
                      (let ctx1 = publish_nowait committed ctx
                       in Inr (ctx1\<lparr>input_audio_buffers :=
                                       dict_set new_id (new_InputAudioBuffer new_id)
                                         (input_audio_buffers ctx1)\<rparr>)))))"

text \<open>\<open>d.popitem()\<close>: removes the entry inserted last; raises on an empty mapping.\<close>

definition popitem :: "('k \<times> 'v) list \<Rightarrow> ('k \<times> 'v) list option" where
  "popitem d = (if d = [] then None else Some (butlast d))"

text \<open>
  \<open>handle_input_audio_buffer_clear\<close>. \<open>gen_item_id\<close> is what \<open>generate_item_id()\<close> returns,
  \<open>new_id\<close> the id of the buffer that \<open>InputAudioBuffer()\<close> creates.
\<close>

definition handle_input_audio_buffer_clear ::
  "string \<Rightarrow> string \<Rightarrow> SessionContext \<Rightarrow> error + SessionContext" where
  "handle_input_audio_buffer_clear gen_item_id new_id ctx =
     (case popitem (input_audio_buffers ctx) of
        None \<Rightarrow> Inl KeyError
      | Some d \<Rightarrow>
          (let ctx1 = ctx\<lparr>input_audio_buffers := d\<rparr>;
               ctx2 = publish_nowait (InputAudioBufferClearedEvent gen_item_id) ctx1
           in Inr (ctx2\<lparr>input_audio_buffers :=
                           dict_set new_id (new_InputAudioBuffer new_id)
                             (input_audio_buffers ctx2)\<rparr>)))"

text \<open>
  \<open>handle_input_audio_buffer_speech_stopped\<close>, for the event \<open>ev\<close>; only \<open>ev.item_id\<close> is
  read. The placeholder for an empty conversation is the string \<open>IDK\<close>.
\<close>

definition handle_input_audio_buffer_speech_stopped ::
  "string \<Rightarrow> string \<Rightarrow> event \<Rightarrow> SessionContext \<Rightarrow> SessionContext" where
  "handle_input_audio_buffer_speech_stopped new_id gen_item_id ev ctx =
     (let ctx1 = ctx\<lparr>input_audio_buffers :=
                      dict_set new_id (new_InputAudioBuffer new_id) (input_audio_buffers ctx)\<rparr>;
          prev = (case last_key (conversation ctx1) of None \<Rightarrow> ''IDK'' | Some p \<Rightarrow> p)
      in publish_nowait (InputAudioBufferCommittedEvent gen_item_id (Some prev) (item_id ev)) ctx1)"

text \<open>
  \<open>handle_input_audio_buffer_committed\<close>, for the event \<open>ev\<close>; \<open>gen_item_id\<close> is what
  \<open>generate_item_id()\<close> returns.
\<close>

definition handle_input_audio_buffer_committed ::
  "string \<Rightarrow> event \<Rightarrow> SessionContext \<Rightarrow> SessionContext" where
  "handle_input_audio_buffer_committed gen_item_id ev ctx =
     (let item = \<lparr>ci_id = item_id ev, ci_object = ''realtime.item'',
                   ci_status = ''completed'', ci_role = ''user'',
                   ci_content = [(None, ''input_audio'')], ci_type = ''message''\<rparr>;
          ctx1 = ctx\<lparr>conversation := dict_set (ci_id item) item (conversation ctx)\<rparr>
      in publish_nowait (ConversationItemCreatedEvent gen_item_id None item) ctx1)"

text \<open>
  \<open>handle_input_audio_buffer_append\<close>. \<open>decoded\<close> is the chunk as decoded from the event by
  \<open>audio_samples_from_file\<close> (24 kHz samples), \<open>gen_item_id\<close> what \<open>generate_item_id()\<close>
  returns inside \<open>vad_detection_flow\<close>. The buffer object is changed in place, so its entry
  keeps its key and position. The result holds the context and the windows on which the
  external VAD was called during the append.
\<close>

definition handle_input_audio_buffer_append ::
  "numpy \<Rightarrow> vad \<Rightarrow> string \<Rightarrow> sample list \<Rightarrow> SessionContext
     \<Rightarrow> error + (SessionContext \<times> sample list list)" where
  "handle_input_audio_buffer_append np get_speech_timestamps gen_item_id decoded ctx =
     (case resample_audio_data np decoded 24000 16000 of
        Inl e \<Rightarrow> Inl e
      | Inr audio_chunk \<Rightarrow>
          (case last_key (input_audio_buffers ctx) of
             None \<Rightarrow> Inl StopIteration
           | Some input_audio_buffer_id \<Rightarrow>
               (case map_of (input_audio_buffers ctx) input_audio_buffer_id of
                  None \<Rightarrow> Inl KeyError
                | Some input_audio_buffer \<Rightarrow>
                    (let b1 = append_buf audio_chunk input_audio_buffer;
                         ctx1 = ctx\<lparr>input_audio_buffers :=
                                  dict_set input_audio_buffer_id b1 (input_audio_buffers ctx)\<rparr>
                     in case turn_detection ctx1 of
                          None \<Rightarrow> Inr (ctx1, [])
                        | Some td \<Rightarrow>
                            (case vad_detection_flow get_speech_timestamps gen_item_id b1 td of
                               ((vad_event, b2), vad_calls) \<Rightarrow>
                                 (let ctx2 = ctx1\<lparr>input_audio_buffers :=
                                               dict_set input_audio_buffer_id b2
                                                 (input_audio_buffers ctx1)\<rparr>
                                  in Inr (case vad_event of
                                            None \<Rightarrow> ctx2
                                          | Some e \<Rightarrow> publish_nowait e ctx2,
                                          vad_calls)))))))"

section \<open>Sequences of evaluations\<close>

text \<open>
  Between two evaluations of the same buffer the router only appends audio to it. A step
  of a run is the chunk appended, then one call of \<open>vad_detection_flow\<close> with the VAD, the
  configuration and the event id of that call; the run collects the events returned.
\<close>

type_synonym eval_step = "sample list \<times> vad \<times> string \<times> TurnDetection"

definition eval_step :: "eval_step \<Rightarrow> InputAudioBuffer \<Rightarrow> event option \<times> InputAudioBuffer" where
  "eval_step st b =
     (case st of (chunk, get_speech_timestamps, event_id, td) \<Rightarrow>
        fst (vad_detection_flow get_speech_timestamps event_id (append_buf chunk b) td))"

fun eval_run :: "eval_step list \<Rightarrow> InputAudioBuffer \<Rightarrow> event list \<times> InputAudioBuffer" where
  "eval_run [] b = ([], b)"
| "eval_run (st # sts) b =
     (case eval_step st b of (ev, b1) \<Rightarrow>
        (case eval_run sts b1 of (evs, b2) \<Rightarrow>
           ((case ev of None \<Rightarrow> evs | Some e \<Rightarrow> e # evs), b2)))"

fun is_speech_started :: "event \<Rightarrow> bool" where
  "is_speech_started (InputAudioBufferSpeechStartedEvent _ _ _) = True"
| "is_speech_started _ = False"

section \<open>Sessions and generated ids\<close>

text \<open>
  Modelled from the spec: \<open>generate_item_id\<close> and \<open>generate_event_id\<close> (module
  \<open>speaches.realtime.utils\<close>) and the creation of a session are not among the source files.
  The spec calls an id an opaque unique string, generated at creation, and has the first
  empty buffer created at session start. The model numbers the ids that a session
  generates: the \<open>k\<close>-th one is \<open>id_of k\<close>, written in unary so that different numbers give
  different strings, and \<open>ids_issued\<close> counts those generated so far.
\<close>

definition id_of :: "nat \<Rightarrow> string" where
  "id_of k = ''item_'' @ replicate k (CHR ''1'')"

record Session =
  session_ctx :: SessionContext
  ids_issued :: nat

definition initial_session :: "TurnDetection option \<Rightarrow> Session" where
  "initial_session td =
     \<lparr>session_ctx =
        \<lparr>input_audio_buffers = [(id_of 0, new_InputAudioBuffer (id_of 0))],
         conversation = [], pubsub = [], turn_detection = td\<rparr>,
      ids_issued = 1\<rparr>"

text \<open>
  Each operation of a session hands its handler the next ids, in the order in which the
  handler generates them, and counts two ids where a handler generates at most two.
\<close>

definition session_append ::
  "numpy \<Rightarrow> vad \<Rightarrow> sample list \<Rightarrow> Session \<Rightarrow> error + Session" where
  "session_append np get_speech_timestamps decoded s =
     (case handle_input_audio_buffer_append np get_speech_timestamps
             (id_of (ids_issued s)) decoded (session_ctx s) of
        Inl e \<Rightarrow> Inl e
      | Inr (ctx', vad_calls) \<Rightarrow> Inr \<lparr>session_ctx = ctx', ids_issued = ids_issued s + 1\<rparr>)"

definition session_commit :: "Session \<Rightarrow> error + Session" where
  "session_commit s =
     (case handle_input_audio_buffer_commit (id_of (ids_issued s)) (id_of (ids_issued s))
             (id_of (ids_issued s + 1)) (session_ctx s) of
        Inl e \<Rightarrow> Inl e
      | Inr ctx' \<Rightarrow> Inr \<lparr>session_ctx = ctx', ids_issued = ids_issued s + 2\<rparr>)"

definition session_clear :: "Session \<Rightarrow> error + Session" where
  "session_clear s =
     (case handle_input_audio_buffer_clear (id_of (ids_issued s))
             (id_of (ids_issued s + 1)) (session_ctx s) of
        Inl e \<Rightarrow> Inl e
      | Inr ctx' \<Rightarrow> Inr \<lparr>session_ctx = ctx', ids_issued = ids_issued s + 2\<rparr>)"

definition session_speech_stopped :: "event \<Rightarrow> Session \<Rightarrow> Session" where
  "session_speech_stopped ev s =
     \<lparr>session_ctx = handle_input_audio_buffer_speech_stopped (id_of (ids_issued s))
                       (id_of (ids_issued s + 1)) ev (session_ctx s),
      ids_issued = ids_issued s + 2\<rparr>"

definition session_committed :: "event \<Rightarrow> Session \<Rightarrow> Session" where
  "session_committed ev s =
     \<lparr>session_ctx = handle_input_audio_buffer_committed (id_of (ids_issued s)) ev
                       (session_ctx s),
      ids_issued = ids_issued s + 1\<rparr>"

text \<open>
  The sessions that a run of the router can be in: a new session, and what the handlers
  make of a session they return from. The server generates ids for other purposes as well
  (and on a path that raises), which only advances the count.
\<close>

inductive reachable :: "Session \<Rightarrow> bool" where
  start: "reachable (initial_session td)"
| issued: "reachable s \<Longrightarrow> reachable (s\<lparr>ids_issued := ids_issued s + 1\<rparr>)"
| append: "reachable s \<Longrightarrow> session_append np get_speech_timestamps decoded s = Inr s'
    \<Longrightarrow> reachable s'"
| commit: "reachable s \<Longrightarrow> session_commit s = Inr s' \<Longrightarrow> reachable s'"
| clear: "reachable s \<Longrightarrow> session_clear s = Inr s' \<Longrightarrow> reachable s'"
| speech_stopped:
    "reachable s \<Longrightarrow> reachable (session_speech_stopped
                                  (InputAudioBufferSpeechStoppedEvent e i t) s)"
| committed:
    "reachable s \<Longrightarrow> reachable (session_committed
                                  (InputAudioBufferCommittedEvent e p i) s)"

text \<open>
  What the mapping of buffers of a session looks like: it is not empty, its keys are
  distinct, and every key is an id the session has generated.
\<close>

definition well_formed :: "Session \<Rightarrow> bool" where
  "well_formed s \<longleftrightarrow>
     input_audio_buffers (session_ctx s) \<noteq> [] \<and>
     distinct (map fst (input_audio_buffers (session_ctx s))) \<and>
     (\<forall>k \<in> fst ` set (input_audio_buffers (session_ctx s)). \<exists>j < ids_issued s. k = id_of j)"

section \<open>Properties\<close>

lemma map_of_last_key:
  "d \<noteq> [] \<Longrightarrow> distinct (map fst d) \<Longrightarrow> map_of d (fst (last d)) = Some (snd (last d))"
  by (metis last_in_set map_of_is_SomeI prod.collapse)

text \<open>
  C3. Commit on a session whose active buffer has size 0 publishes exactly one error event
  (type \<open>invalid_request_error\<close>, the message that the buffer is empty) and changes nothing
  else: no committed event, no new buffer, the buffer mapping (hence the active buffer id),
  the conversation and the configuration are as before.
\<close>

theorem commit_empty_buffer:
  assumes "input_audio_buffers ctx \<noteq> []"
    and "distinct (map fst (input_audio_buffers ctx))"
    and "size_buf (snd (last (input_audio_buffers ctx))) = 0"
  shows "handle_input_audio_buffer_commit event_id gen_item_id new_id ctx =
           Inr (ctx\<lparr>pubsub := pubsub ctx @
                  [ErrorEvent event_id
                     (Error ''invalid_request_error''
                        ''Error committing input audio buffer: the buffer is empty.'')]\<rparr>)"
proof -
  have "map_of (input_audio_buffers ctx) (fst (last (input_audio_buffers ctx))) =
          Some (snd (last (input_audio_buffers ctx)))"
    by (rule map_of_last_key [OF assms(1,2)])
  with assms(1,3) show ?thesis
    unfolding handle_input_audio_buffer_commit_def last_key_def publish_nowait_def
      empty_input_audio_buffer_commit_error_def
    by simp
qed

theorem commit_empty_buffer_witness:
  "handle_input_audio_buffer_commit ''event_1'' ''item_2'' ''item_3''
     \<lparr>input_audio_buffers = [(''item_0'', new_InputAudioBuffer ''item_0'')],
      conversation = [], pubsub = [], turn_detection = None\<rparr> =
   Inr \<lparr>input_audio_buffers = [(''item_0'', new_InputAudioBuffer ''item_0'')],
        conversation = [],
        pubsub = [ErrorEvent ''event_1''
                    (Error ''invalid_request_error''
                       ''Error committing input audio buffer: the buffer is empty.'')],
        turn_detection = None\<rparr>"
  using commit_empty_buffer [of "\<lparr>input_audio_buffers = [(''item_0'', new_InputAudioBuffer ''item_0'')],
      conversation = [], pubsub = [], turn_detection = None\<rparr>" "''event_1''" "''item_2''" "''item_3''"]
  by (simp add: new_InputAudioBuffer_def size_buf_def)

lemma dict_set_fresh:
  "k \<notin> fst ` set d \<Longrightarrow> dict_set k v d = d @ [(k, v)]"
  unfolding dict_set_def by (induction d) auto

lemma last_key_not_in_butlast:
  assumes "d \<noteq> []" and "distinct (map fst d)"
  shows "fst (last d) \<notin> fst ` set (butlast d)"
proof -
  have "d = butlast d @ [last d]" using assms(1) by simp
  then have "distinct (map fst (butlast d @ [last d]))" using assms(2) by simp
  then show ?thesis by auto
qed

text \<open>
  C4. A buffer with \<open>audio_start_ms = None\<close>: the window handed to the VAD is at most 3000 ms
  long; if the VAD reports a span, \<open>audio_start_ms\<close> becomes
  \<open>duration_ms - window_duration_ms + start\<close> of the last span (in ms) and a speech_started
  event with that value and the buffer's id is returned; if it reports none, no event is
  returned and the buffer is unchanged.
\<close>

theorem vad_flow_pre_speech:
  assumes "audio_start_ms (vad_state b) = None"
    and "spans = to_ms_speech_timestamps
                   (get_speech_timestamps (audio_window_of b) (vad_options_of td))"
    and "window_duration_ms = int (length (audio_window_of b)) div 16"
  shows "window_duration_ms \<le> 3000 \<and>
         (spans \<noteq> [] \<longrightarrow>
            fst (vad_detection_flow get_speech_timestamps event_id b td) =
              (Some (InputAudioBufferSpeechStartedEvent event_id (buf_id b)
                       (duration_ms b - window_duration_ms + start_ts (last spans))),
               b\<lparr>vad_state := (vad_state b)\<lparr>audio_start_ms :=
                    Some (duration_ms b - window_duration_ms + start_ts (last spans))\<rparr>\<rparr>)) \<and>
         (spans = [] \<longrightarrow>
            fst (vad_detection_flow get_speech_timestamps event_id b td) = (None, b))"
proof -
  have "int (length (audio_window_of b)) \<le> 48000"
    by (simp add: audio_window_of_def MAX_VAD_WINDOW_SIZE_SAMPLES_def)
  then have "window_duration_ms \<le> 3000"
    unfolding assms(3) by linarith
  moreover have "spans \<noteq> [] \<longrightarrow>
            fst (vad_detection_flow get_speech_timestamps event_id b td) =
              (Some (InputAudioBufferSpeechStartedEvent event_id (buf_id b)
                       (duration_ms b - window_duration_ms + start_ts (last spans))),
               b\<lparr>vad_state := (vad_state b)\<lparr>audio_start_ms :=
                    Some (duration_ms b - window_duration_ms + start_ts (last spans))\<rparr>\<rparr>)"
    using assms by (simp add: vad_detection_flow_def Let_def MS_SAMPLE_RATE_def)
  moreover have "spans = [] \<longrightarrow>
            fst (vad_detection_flow get_speech_timestamps event_id b td) = (None, b)"
    using assms by (simp add: vad_detection_flow_def Let_def)
  ultimately show ?thesis by blast
qed

text \<open>
  C4, at a buffer of 3010 ms whose last 3000 ms hold a span that starts 2000 ms into the
  window.
\<close>

theorem vad_flow_pre_speech_witness:
  "fst (vad_detection_flow (one_span 32000 40000) ''event_1''
      \<lparr>buf_id = ''item_0'', data = replicate 48160 0,
       vad_state = \<lparr>audio_start_ms = None, audio_end_ms = None\<rparr>\<rparr>
      \<lparr>threshold = 9 / 10, prefix_padding_ms = 0, silence_duration_ms = 550,
       create_response = False\<rparr>) =
     (Some (InputAudioBufferSpeechStartedEvent ''event_1'' ''item_0'' 2010),
      \<lparr>buf_id = ''item_0'', data = replicate 48160 0,
       vad_state = \<lparr>audio_start_ms = Some 2010, audio_end_ms = None\<rparr>\<rparr>)"
  using vad_flow_pre_speech
    [where b = "\<lparr>buf_id = ''item_0'', data = replicate 48160 0,
                  vad_state = \<lparr>audio_start_ms = None, audio_end_ms = None\<rparr>\<rparr>"
       and spans = "[\<lparr>start_ts = 2000, end_ts = 2500\<rparr>]"
       and get_speech_timestamps = "one_span 32000 40000"
       and td = "\<lparr>threshold = 9 / 10, prefix_padding_ms = 0, silence_duration_ms = 550,
                   create_response = False\<rparr>"
       and window_duration_ms = 3000 and event_id = "''event_1''"]
  unfolding one_span_def
  by (simp add: to_ms_speech_timestamps_def audio_window_of_def
      MAX_VAD_WINDOW_SIZE_SAMPLES_def MS_SAMPLE_RATE_def duration_ms_def size_buf_def)

text \<open>
  C5. A buffer with \<open>audio_start_ms\<close> set and \<open>audio_end_ms = None\<close>: if the VAD reports no
  span, or the last span ends before 3000 ms while the buffer is longer than 3000 ms,
  \<open>audio_end_ms\<close> becomes \<open>duration_ms - prefix_padding_ms\<close> and a speech_stopped event
  with that value is returned; if the last span ends at 3000 ms or later, or the buffer is
  not longer than 3000 ms, no event is returned and the buffer is unchanged.
\<close>

theorem vad_flow_in_speech:
  assumes "audio_start_ms (vad_state b) = Some s"
    and "audio_end_ms (vad_state b) = None"
    and "spans = to_ms_speech_timestamps
                   (get_speech_timestamps (audio_window_of b) (vad_options_of td))"
  shows "(spans = [] \<or> (end_ts (last spans) < 3000 \<and> duration_ms b > 3000) \<longrightarrow>
            fst (vad_detection_flow get_speech_timestamps event_id b td) =
              (Some (InputAudioBufferSpeechStoppedEvent event_id (buf_id b)
                       (duration_ms b - prefix_padding_ms td)),
               b\<lparr>vad_state := (vad_state b)\<lparr>audio_end_ms :=
                    Some (duration_ms b - prefix_padding_ms td)\<rparr>\<rparr>)) \<and>
         (spans \<noteq> [] \<and> (end_ts (last spans) \<ge> 3000 \<or> duration_ms b \<le> 3000) \<longrightarrow>
            fst (vad_detection_flow get_speech_timestamps event_id b td) = (None, b))"
  using assms by (auto simp add: vad_detection_flow_def Let_def stop_speech_def)

text \<open>
  C5, at a buffer of 3010 ms whose last span ends 1500 ms into the window.
\<close>

theorem vad_flow_in_speech_witness:
  "fst (vad_detection_flow (one_span 16000 24000) ''event_2''
      \<lparr>buf_id = ''item_0'', data = replicate 48160 0,
       vad_state = \<lparr>audio_start_ms = Some 2010, audio_end_ms = None\<rparr>\<rparr>
      \<lparr>threshold = 9 / 10, prefix_padding_ms = 300, silence_duration_ms = 550,
       create_response = False\<rparr>) =
     (Some (InputAudioBufferSpeechStoppedEvent ''event_2'' ''item_0'' 2710),
      \<lparr>buf_id = ''item_0'', data = replicate 48160 0,
       vad_state = \<lparr>audio_start_ms = Some 2010, audio_end_ms = Some 2710\<rparr>\<rparr>)"
  using vad_flow_in_speech
    [where b = "\<lparr>buf_id = ''item_0'', data = replicate 48160 0,
                  vad_state = \<lparr>audio_start_ms = Some 2010, audio_end_ms = None\<rparr>\<rparr>"
       and s = 2010
       and spans = "[\<lparr>start_ts = 1000, end_ts = 1500\<rparr>]"
       and get_speech_timestamps = "one_span 16000 24000"
       and td = "\<lparr>threshold = 9 / 10, prefix_padding_ms = 300, silence_duration_ms = 550,
                   create_response = False\<rparr>"
       and event_id = "''event_2''"]
  unfolding one_span_def
  by (simp add: to_ms_speech_timestamps_def audio_window_of_def
      MAX_VAD_WINDOW_SIZE_SAMPLES_def MS_SAMPLE_RATE_def duration_ms_def size_buf_def)

text \<open>
  C1, as stated, fails: \<open>vad_detection_flow\<close> never reads \<open>audio_end_ms\<close>. A closed buffer
  (start 0 ms, end 5 ms) that now holds 10 ms of audio, evaluated when the VAD reports no
  span, returns a second speech_stopped event and its \<open>audio_end_ms\<close> is overwritten.
\<close>

theorem vad_flow_closed_buffer_counterexample:
  "audio_end_ms (vad_state
      \<lparr>buf_id = ''item_0'', data = replicate 160 0,
       vad_state = \<lparr>audio_start_ms = Some 0, audio_end_ms = Some 5\<rparr>\<rparr>) = Some 5 \<and>
   fst (vad_detection_flow no_speech ''event_1''
      \<lparr>buf_id = ''item_0'', data = replicate 160 0,
       vad_state = \<lparr>audio_start_ms = Some 0, audio_end_ms = Some 5\<rparr>\<rparr>
      \<lparr>threshold = 9 / 10, prefix_padding_ms = 0, silence_duration_ms = 550,
       create_response = False\<rparr>) =
     (Some (InputAudioBufferSpeechStoppedEvent ''event_1'' ''item_0'' 10),
      \<lparr>buf_id = ''item_0'', data = replicate 160 0,
       vad_state = \<lparr>audio_start_ms = Some 0, audio_end_ms = Some 10\<rparr>\<rparr>)"
  unfolding no_speech_def
  by (simp add: vad_detection_flow_def to_ms_speech_timestamps_def stop_speech_def
      duration_ms_def size_buf_def MS_SAMPLE_RATE_def)

text \<open>
  C1, amended. For a buffer whose \<open>audio_end_ms\<close> and \<open>audio_start_ms\<close> are both set, the
  evaluation returns no event and leaves the buffer unchanged when the VAD reports a span
  whose last end is at 3000 ms or later, or the buffer is not longer than 3000 ms; when
  the VAD reports no span, or the last span ends before 3000 ms in a buffer longer than
  3000 ms, it returns a speech_stopped event again and overwrites \<open>audio_end_ms\<close> with
  \<open>duration_ms - prefix_padding_ms\<close>.
\<close>

theorem vad_flow_closed_buffer:
  assumes "audio_end_ms (vad_state b) = Some e"
    and "audio_start_ms (vad_state b) = Some s"
    and "spans = to_ms_speech_timestamps
                   (get_speech_timestamps (audio_window_of b) (vad_options_of td))"
  shows "(spans \<noteq> [] \<and> (end_ts (last spans) \<ge> 3000 \<or> duration_ms b \<le> 3000) \<longrightarrow>
            fst (vad_detection_flow get_speech_timestamps event_id b td) = (None, b)) \<and>
         (spans = [] \<or> (end_ts (last spans) < 3000 \<and> duration_ms b > 3000) \<longrightarrow>
            fst (vad_detection_flow get_speech_timestamps event_id b td) =
              (Some (InputAudioBufferSpeechStoppedEvent event_id (buf_id b)
                       (duration_ms b - prefix_padding_ms td)),
               b\<lparr>vad_state := (vad_state b)\<lparr>audio_end_ms :=
                    Some (duration_ms b - prefix_padding_ms td)\<rparr>\<rparr>))"
  using assms by (auto simp add: vad_detection_flow_def Let_def stop_speech_def)

text \<open>
  C1 amended, at a closed buffer of 3010 ms whose last span reaches the end of the
  window.
\<close>

theorem vad_flow_closed_buffer_witness:
  "fst (vad_detection_flow (one_span 16 48000) ''event_3''
      \<lparr>buf_id = ''item_0'', data = replicate 48160 0,
       vad_state = \<lparr>audio_start_ms = Some 2010, audio_end_ms = Some 2710\<rparr>\<rparr>
      \<lparr>threshold = 9 / 10, prefix_padding_ms = 300, silence_duration_ms = 550,
       create_response = False\<rparr>) =
     (None,
      \<lparr>buf_id = ''item_0'', data = replicate 48160 0,
       vad_state = \<lparr>audio_start_ms = Some 2010, audio_end_ms = Some 2710\<rparr>\<rparr>)"
  using vad_flow_closed_buffer
    [where b = "\<lparr>buf_id = ''item_0'', data = replicate 48160 0,
                  vad_state = \<lparr>audio_start_ms = Some 2010, audio_end_ms = Some 2710\<rparr>\<rparr>"
       and s = 2010 and e = 2710
       and spans = "[\<lparr>start_ts = 1, end_ts = 3000\<rparr>]"
       and get_speech_timestamps = "one_span 16 48000"
       and td = "\<lparr>threshold = 9 / 10, prefix_padding_ms = 300, silence_duration_ms = 550,
                   create_response = False\<rparr>"
       and event_id = "''event_3''"]
  unfolding one_span_def
  by (simp add: to_ms_speech_timestamps_def audio_window_of_def
      MAX_VAD_WINDOW_SIZE_SAMPLES_def MS_SAMPLE_RATE_def duration_ms_def size_buf_def)

text \<open>
  C8. The handler of a speech_stopped event for the active buffer adds a new empty buffer
  at the end of the mapping and publishes exactly one committed event whose \<open>item_id\<close> is
  the stopped buffer's id and whose \<open>previous_item_id\<close> is the last conversation key, or
  the placeholder \<open>IDK\<close> when the conversation is empty.
\<close>

theorem speech_stopped_rotates:
  assumes "input_audio_buffers ctx \<noteq> []"
    and "ev = InputAudioBufferSpeechStoppedEvent stop_event_id
                (fst (last (input_audio_buffers ctx))) end_ms"
    and "new_id \<notin> fst ` set (input_audio_buffers ctx)"
  shows "handle_input_audio_buffer_speech_stopped new_id gen_item_id ev ctx =
           ctx\<lparr>input_audio_buffers := input_audio_buffers ctx @
                  [(new_id, \<lparr>buf_id = new_id, data = [],
                             vad_state = \<lparr>audio_start_ms = None, audio_end_ms = None\<rparr>\<rparr>)],
                pubsub := pubsub ctx @
                  [InputAudioBufferCommittedEvent gen_item_id
                     (Some (if conversation ctx = [] then ''IDK''
                            else fst (last (conversation ctx))))
                     (fst (last (input_audio_buffers ctx)))]\<rparr>
         \<and> new_id \<noteq> fst (last (input_audio_buffers ctx))"
proof -
  have "fst (last (input_audio_buffers ctx)) \<in> fst ` set (input_audio_buffers ctx)"
    using assms(1) by simp
  then have neq: "new_id \<noteq> fst (last (input_audio_buffers ctx))"
    using assms(3) by auto
  have "handle_input_audio_buffer_speech_stopped new_id gen_item_id ev ctx =
           ctx\<lparr>input_audio_buffers := input_audio_buffers ctx @
                  [(new_id, \<lparr>buf_id = new_id, data = [],
                             vad_state = \<lparr>audio_start_ms = None, audio_end_ms = None\<rparr>\<rparr>)],
                pubsub := pubsub ctx @
                  [InputAudioBufferCommittedEvent gen_item_id
                     (Some (if conversation ctx = [] then ''IDK''
                            else fst (last (conversation ctx))))
                     (fst (last (input_audio_buffers ctx)))]\<rparr>"
    using dict_set_fresh [OF assms(3)]
    unfolding handle_input_audio_buffer_speech_stopped_def last_key_def publish_nowait_def
      new_InputAudioBuffer_def assms(2)
    by (simp add: Let_def)
  with neq show ?thesis by simp
qed

text \<open>
  C8, at a session with an empty conversation.
\<close>

theorem speech_stopped_rotates_witness:
  "handle_input_audio_buffer_speech_stopped ''item_3'' ''item_2''
     (InputAudioBufferSpeechStoppedEvent ''event_1'' ''item_0'' 10)
     \<lparr>input_audio_buffers =
        [(''item_0'', \<lparr>buf_id = ''item_0'', data = replicate 160 0,
                       vad_state = \<lparr>audio_start_ms = Some 0, audio_end_ms = Some 10\<rparr>\<rparr>)],
      conversation = [], pubsub = [], turn_detection = None\<rparr> =
   \<lparr>input_audio_buffers =
      [(''item_0'', \<lparr>buf_id = ''item_0'', data = replicate 160 0,
                     vad_state = \<lparr>audio_start_ms = Some 0, audio_end_ms = Some 10\<rparr>\<rparr>),
       (''item_3'', \<lparr>buf_id = ''item_3'', data = [],
                     vad_state = \<lparr>audio_start_ms = None, audio_end_ms = None\<rparr>\<rparr>)],
    conversation = [],
    pubsub = [InputAudioBufferCommittedEvent ''item_2'' (Some ''IDK'') ''item_0''],
    turn_detection = None\<rparr>"
  using speech_stopped_rotates
    [where ctx = "\<lparr>input_audio_buffers =
        [(''item_0'', \<lparr>buf_id = ''item_0'', data = replicate 160 0,
                       vad_state = \<lparr>audio_start_ms = Some 0, audio_end_ms = Some 10\<rparr>\<rparr>)],
      conversation = [], pubsub = [], turn_detection = None\<rparr>"
      and ev = "InputAudioBufferSpeechStoppedEvent ''event_1'' ''item_0'' 10"
      and stop_event_id = "''event_1''" and end_ms = 10
      and new_id = "''item_3''" and gen_item_id = "''item_2''"]
  by simp

lemma eval_run_Cons_snd:
  "snd (eval_run (st # sts) b) = snd (eval_run sts (snd (eval_step st b)))"
  by (simp split: prod.splits)

lemma eval_run_append:
  "snd (eval_run (xs @ ys) b) = snd (eval_run ys (snd (eval_run xs b)))"
proof (induction xs arbitrary: b)
  case Nil
  show ?case by simp
next
  case (Cons st xs)
  have "snd (eval_run ((st # xs) @ ys) b) = snd (eval_run (xs @ ys) (snd (eval_step st b)))"
    using eval_run_Cons_snd [of st "xs @ ys" b] by simp
  also have "\<dots> = snd (eval_run ys (snd (eval_run xs (snd (eval_step st b)))))"
    by (rule Cons.IH)
  also have "\<dots> = snd (eval_run ys (snd (eval_run (st # xs) b)))"
    by (simp only: eval_run_Cons_snd)
  finally show ?case .
qed

lemma eval_step_start_kept:
  assumes "audio_start_ms (vad_state b) = Some s"
  shows "audio_start_ms (vad_state (snd (eval_step st b))) = Some s \<and>
         (\<forall>e. fst (eval_step st b) = Some e \<longrightarrow> \<not> is_speech_started e)"
  using assms
  by (auto simp add: eval_step_def vad_detection_flow_def Let_def stop_speech_def
      append_buf_def split: prod.splits)

lemma eval_step_pre_speech:
  assumes "audio_start_ms (vad_state b) = None"
  shows "audio_end_ms (vad_state (snd (eval_step st b))) = audio_end_ms (vad_state b)"
  using assms
  by (auto simp add: eval_step_def vad_detection_flow_def Let_def stop_speech_def
      append_buf_def split: prod.splits)

lemma eval_run_start_kept:
  "audio_start_ms (vad_state b) = Some s \<Longrightarrow>
     audio_start_ms (vad_state (snd (eval_run sts b))) = Some s \<and>
     filter is_speech_started (fst (eval_run sts b)) = []"
proof (induction sts arbitrary: b)
  case Nil
  then show ?case by simp
next
  case (Cons st sts)
  obtain ev b1 where st: "eval_step st b = (ev, b1)" by (cases "eval_step st b")
  with eval_step_start_kept [OF Cons.prems, of st]
  have b1: "audio_start_ms (vad_state b1) = Some s"
    and ev: "\<forall>e. ev = Some e \<longrightarrow> \<not> is_speech_started e" by auto
  from Cons.IH [OF b1] st ev show ?case
    by (auto split: prod.splits option.splits)
qed

lemma eval_step_started_sets:
  assumes "fst (eval_step st b) = Some e" and "is_speech_started e"
  shows "audio_start_ms (vad_state (snd (eval_step st b))) \<noteq> None"
  using assms
  by (auto simp add: eval_step_def vad_detection_flow_def Let_def stop_speech_def
      append_buf_def split: prod.splits option.splits if_splits)

lemma eval_run_started_once:
  "length (filter is_speech_started (fst (eval_run sts b))) \<le> 1"
proof (induction sts arbitrary: b)
  case Nil
  then show ?case by simp
next
  case (Cons st sts)
  obtain ev b1 where st: "eval_step st b = (ev, b1)" by (cases "eval_step st b")
  show ?case
  proof (cases "\<exists>e. ev = Some e \<and> is_speech_started e")
    case True
    then obtain e where e: "ev = Some e" "is_speech_started e" by blast
    with eval_step_started_sets [of st b e] st
    obtain s where "audio_start_ms (vad_state b1) = Some s" by auto
    from eval_run_start_kept [OF this, of sts] st e show ?thesis
      by (auto split: prod.splits)
  next
    case False
    with Cons.IH [of b1] st show ?thesis
      by (auto split: prod.splits option.splits)
  qed
qed

text \<open>
  C10. Over every run of evaluations of a buffer, with audio appended in between: once
  \<open>audio_start_ms\<close> holds a value it holds that same value after every later evaluation
  (it is assigned at most once and never reset); an evaluation that starts with
  \<open>audio_start_ms = None\<close> leaves \<open>audio_end_ms\<close> as it was (so \<open>audio_end_ms\<close> is assigned only
  when \<open>audio_start_ms\<close> is already set); at most one speech_started event is returned in
  the whole run, and none when \<open>audio_start_ms\<close> was set at its start.
\<close>

theorem vad_state_markers_invariant:
  "(\<forall>s. audio_start_ms (vad_state (snd (eval_run xs b))) = Some s \<longrightarrow>
        audio_start_ms (vad_state (snd (eval_run (xs @ ys) b))) = Some s) \<and>
   (audio_start_ms (vad_state (snd (eval_run xs b))) = None \<longrightarrow>
        audio_end_ms (vad_state (snd (eval_run (xs @ [st]) b))) =
          audio_end_ms (vad_state (snd (eval_run xs b)))) \<and>
   length (filter is_speech_started (fst (eval_run xs b))) \<le> 1 \<and>
   (audio_start_ms (vad_state b) \<noteq> None \<longrightarrow>
        filter is_speech_started (fst (eval_run xs b)) = [])"
proof -
  have 1: "\<forall>s. audio_start_ms (vad_state (snd (eval_run xs b))) = Some s \<longrightarrow>
        audio_start_ms (vad_state (snd (eval_run (xs @ ys) b))) = Some s"
    using eval_run_start_kept [of "snd (eval_run xs b)" _ ys]
    by (simp add: eval_run_append)
  have 2: "audio_start_ms (vad_state (snd (eval_run xs b))) = None \<longrightarrow>
        audio_end_ms (vad_state (snd (eval_run (xs @ [st]) b))) =
          audio_end_ms (vad_state (snd (eval_run xs b)))"
    using eval_step_pre_speech [of "snd (eval_run xs b)" st]
    by (simp add: eval_run_append eval_run_Cons_snd del: eval_run.simps(2))
  have 3: "audio_start_ms (vad_state b) \<noteq> None \<longrightarrow>
        filter is_speech_started (fst (eval_run xs b)) = []"
    using eval_run_start_kept [of b _ xs] by auto
  from 1 2 3 eval_run_started_once [of xs b] show ?thesis by blast
qed

text \<open>
  C10, on runs of silence, speech, silence from a new buffer, and on a run from a buffer
  whose \<open>audio_start_ms\<close> is already set.
\<close>

theorem vad_state_markers_invariant_witness:
  "audio_start_ms (vad_state (snd (eval_run
       ([(replicate 32 0, no_speech, ''event_1'', \<lparr>threshold = 9 / 10, prefix_padding_ms = 0, silence_duration_ms = 550,
          create_response = False\<rparr>),
        (replicate 32 0, one_span 16 48, ''event_2'', \<lparr>threshold = 9 / 10, prefix_padding_ms = 0, silence_duration_ms = 550,
          create_response = False\<rparr>)] @
        [(replicate 32 0, no_speech, ''event_3'', \<lparr>threshold = 9 / 10, prefix_padding_ms = 0, silence_duration_ms = 550,
          create_response = False\<rparr>)])
       \<lparr>buf_id = ''item_0'', data = [],
          vad_state = \<lparr>audio_start_ms = None, audio_end_ms = None\<rparr>\<rparr>))) = Some 1 \<and>
   audio_end_ms (vad_state (snd (eval_run
       ([(replicate 32 0, no_speech, ''event_1'', \<lparr>threshold = 9 / 10, prefix_padding_ms = 0, silence_duration_ms = 550,
          create_response = False\<rparr>)] @
        [(replicate 32 0, no_speech, ''event_3'', \<lparr>threshold = 9 / 10, prefix_padding_ms = 0, silence_duration_ms = 550,
          create_response = False\<rparr>)])
       \<lparr>buf_id = ''item_0'', data = [],
          vad_state = \<lparr>audio_start_ms = None, audio_end_ms = None\<rparr>\<rparr>))) = None \<and>
   fst (eval_run
       [(replicate 32 0, no_speech, ''event_1'', \<lparr>threshold = 9 / 10, prefix_padding_ms = 0, silence_duration_ms = 550,
          create_response = False\<rparr>),
        (replicate 32 0, one_span 16 48, ''event_2'', \<lparr>threshold = 9 / 10, prefix_padding_ms = 0, silence_duration_ms = 550,
          create_response = False\<rparr>)]
       \<lparr>buf_id = ''item_0'', data = [],
          vad_state = \<lparr>audio_start_ms = None, audio_end_ms = None\<rparr>\<rparr>) =
     [InputAudioBufferSpeechStartedEvent ''event_2'' ''item_0'' 1] \<and>
   filter is_speech_started (fst (eval_run
       [(replicate 32 0, one_span 16 48, ''event_4'', \<lparr>threshold = 9 / 10, prefix_padding_ms = 0, silence_duration_ms = 550,
          create_response = False\<rparr>),
        (replicate 32 0, no_speech, ''event_5'', \<lparr>threshold = 9 / 10, prefix_padding_ms = 0, silence_duration_ms = 550,
          create_response = False\<rparr>)]
       \<lparr>buf_id = ''item_0'', data = replicate 64 0,
          vad_state = \<lparr>audio_start_ms = Some 1, audio_end_ms = None\<rparr>\<rparr>)) = []"
  using vad_state_markers_invariant
      [where xs = "[(replicate 32 0, no_speech, ''event_1'', \<lparr>threshold = 9 / 10, prefix_padding_ms = 0, silence_duration_ms = 550,
          create_response = False\<rparr>),
        (replicate 32 0, one_span 16 48, ''event_2'', \<lparr>threshold = 9 / 10, prefix_padding_ms = 0, silence_duration_ms = 550,
          create_response = False\<rparr>)]"
         and ys = "[(replicate 32 0, no_speech, ''event_3'', \<lparr>threshold = 9 / 10, prefix_padding_ms = 0, silence_duration_ms = 550,
          create_response = False\<rparr>)]"
         and st = "(replicate 32 0, no_speech, ''event_3'', \<lparr>threshold = 9 / 10, prefix_padding_ms = 0, silence_duration_ms = 550,
          create_response = False\<rparr>)"
         and b = "\<lparr>buf_id = ''item_0'', data = [],
          vad_state = \<lparr>audio_start_ms = None, audio_end_ms = None\<rparr>\<rparr>"]
    vad_state_markers_invariant
      [where xs = "[(replicate 32 0, no_speech, ''event_1'', \<lparr>threshold = 9 / 10, prefix_padding_ms = 0, silence_duration_ms = 550,
          create_response = False\<rparr>)]"
         and ys = "[]"
         and st = "(replicate 32 0, no_speech, ''event_3'', \<lparr>threshold = 9 / 10, prefix_padding_ms = 0, silence_duration_ms = 550,
          create_response = False\<rparr>)"
         and b = "\<lparr>buf_id = ''item_0'', data = [],
          vad_state = \<lparr>audio_start_ms = None, audio_end_ms = None\<rparr>\<rparr>"]
    vad_state_markers_invariant
      [where xs = "[(replicate 32 0, one_span 16 48, ''event_4'', \<lparr>threshold = 9 / 10, prefix_padding_ms = 0, silence_duration_ms = 550,
          create_response = False\<rparr>),
        (replicate 32 0, no_speech, ''event_5'', \<lparr>threshold = 9 / 10, prefix_padding_ms = 0, silence_duration_ms = 550,
          create_response = False\<rparr>)]"
         and ys = "[]"
         and st = "(replicate 32 0, no_speech, ''event_5'', \<lparr>threshold = 9 / 10, prefix_padding_ms = 0, silence_duration_ms = 550,
          create_response = False\<rparr>)"
         and b = "\<lparr>buf_id = ''item_0'', data = replicate 64 0,
          vad_state = \<lparr>audio_start_ms = Some 1, audio_end_ms = None\<rparr>\<rparr>"]
  unfolding no_speech_def one_span_def
  by (simp add: eval_step_def vad_detection_flow_def Let_def stop_speech_def append_buf_def
      to_ms_speech_timestamps_def audio_window_of_def MAX_VAD_WINDOW_SIZE_SAMPLES_def
      MS_SAMPLE_RATE_def duration_ms_def size_buf_def vad_options_of_def)

lemma round_half_even_of_int: "round_half_even (of_int z) = z"
  by (simp add: round_half_even_def)

lemma round_half_even_nonneg: "0 \<le> x \<Longrightarrow> 0 \<le> round_half_even x"
  by (auto simp add: round_half_even_def Let_def)

lemma floor_log2_le:
  assumes "0 < x"
  shows "2 powi floor_log2 x \<le> x"
proof -
  obtain p q where pq: "quotient_of x = (p, q)" by (cases "quotient_of x")
  then have q: "0 < q" and x: "x = of_int p / of_int q"
    using quotient_of_denom_pos quotient_of_div by auto
  with assms have p: "0 < p"
    by (simp add: zero_less_divide_iff)
  define e0 where "e0 = bitlen p - bitlen q"
  show ?thesis
  proof (cases "2 powi e0 \<le> x")
    case True
    then show ?thesis by (simp add: floor_log2_def pq e0_def)
  next
    case False
    have bp: "1 \<le> bitlen p" using p by (simp add: bitlen_alt_def)
    have bq: "0 \<le> bitlen q" by (rule bitlen_nonneg)
    have lo: "(2::int) ^ nat (bitlen p - 1) \<le> p" using bitlen_bounds [OF p] by simp
    have hi: "q < 2 ^ nat (bitlen q)" using bitlen_bounds [OF q] by simp
    have lo': "(2::rat) ^ nat (bitlen p - 1) \<le> of_int p"
      using lo by (metis of_int_le_iff of_int_numeral of_int_power)
    have hi': "of_int q \<le> (2::rat) ^ nat (bitlen q)"
      using hi by (metis less_imp_le of_int_le_iff of_int_numeral of_int_power)
    have "(2::rat) powi (e0 - 1) = 2 powi (bitlen p - 1) / 2 powi (bitlen q)"
      by (simp add: e0_def power_int_diff)
    also have "\<dots> = 2 ^ nat (bitlen p - 1) / 2 ^ nat (bitlen q)"
      using bp bq by (simp add: power_int_def)
    also have "\<dots> \<le> of_int p / of_int q"
      using lo' hi' q p by (intro frac_le) auto
    finally have "2 powi (e0 - 1) \<le> x" by (simp add: x)
    with False show ?thesis by (simp add: floor_log2_def pq e0_def)
  qed
qed

lemma fl64_of_int:
  assumes "0 < k" and "k < 2 ^ 53"
  shows "fl64 (of_int k) = of_int k"
proof -
  define e where "e = max (floor_log2 (of_int k)) (- 1022)"
  have kpos: "(0::rat) < of_int k" using assms(1) by simp
  have "2 powi floor_log2 (of_int k) \<le> (of_int k :: rat)"
    by (rule floor_log2_le [OF kpos])
  also have "(of_int k :: rat) < 2 ^ 53"
    using assms(2) by (metis of_int_less_iff of_int_numeral of_int_power)
  finally have "(2::rat) powi floor_log2 (of_int k) < 2 powi 53" by simp
  then have "floor_log2 (of_int k :: rat) < 53"
    by (rule power_int_le_imp_less_exp [rotated]) simp_all
  then have e: "e < 53" by (simp add: e_def)
  then have "(2::rat) powi (52 - e) = of_int (2 ^ nat (52 - e))"
    by (simp add: power_int_def)
  then have m: "round_half_even (of_int k * 2 powi (52 - e)) = k * 2 ^ nat (52 - e)"
    using round_half_even_of_int [of "k * 2 ^ nat (52 - e)"] by simp
  have "(2::rat) powi (52 - e) * 2 powi (e - 52) = 1"
    by (simp flip: power_int_add)
  then have "of_int k * ((2::rat) powi (52 - e) * 2 powi (e - 52)) = of_int k" by simp
  moreover have "(2::rat) powi (52 - e) = 2 ^ nat (52 - e)"
    using e by (simp add: power_int_def)
  ultimately have "of_int (k * 2 ^ nat (52 - e)) * (2::rat) powi (e - 52) = of_int k"
    by (simp add: mult.assoc)
  with m assms(1) kpos show ?thesis
    unfolding fl64_def Let_def e_def [symmetric]
    by (simp add: e_def [symmetric])
qed

lemma fl64_nonneg: "0 \<le> x \<Longrightarrow> 0 \<le> fl64 x"
  unfolding fl64_def Let_def
  by (auto intro!: mult_nonneg_nonneg round_half_even_nonneg simp add: sgn_if)



lemma fl64_of_nat:
  assumes "n < 2 ^ 53"
  shows "fl64 (of_nat n) = of_nat n"
proof (cases "n = 0")
  case True
  then show ?thesis by (simp add: fl64_def)
next
  case False
  with assms fl64_of_int [of "int n"] show ?thesis by simp
qed

lemma float_of_length:
  assumes "n < 2 ^ 53"
  shows "float_of (int n) = Inr (of_nat n)"
proof -
  have "(of_nat n :: rat) < 2 ^ 53"
    using assms by (metis of_nat_less_iff of_nat_numeral of_nat_power)
  also have "\<dots> \<le> (2::rat) ^ 1024"
    by (rule power_increasing) simp_all
  finally have "\<not> (2::rat) ^ 1024 \<le> \<bar>of_nat n\<bar>" by simp
  then show ?thesis
    using fl64_of_nat [OF assms] by (simp add: float_of_def overflows_def)
qed


lemma overflows_nonneg: "0 \<le> x \<Longrightarrow> overflows x \<longleftrightarrow> 2 ^ 1024 \<le> fl64 x"
  using fl64_nonneg [of x] by (simp add: overflows_def)

lemma target_length_cases:
  assumes "n < 2 ^ 53" and "0 < sample_rate" and "0 < target_sample_rate"
    and "ratio = fl64 (of_int target_sample_rate / of_int sample_rate)"
    and "product = fl64 (of_nat n * ratio)"
  shows "target_length_of n sample_rate target_sample_rate =
           (if 2 ^ 1024 \<le> ratio \<or> 2 ^ 1024 \<le> product then Inl OverflowError
            else Inr (python_int product))"
proof -
  have q: "(0::rat) \<le> of_int target_sample_rate / of_int sample_rate"
    using assms(2,3) by simp
  have r: "0 \<le> ratio" unfolding assms(4) by (rule fl64_nonneg [OF q])
  then have p: "(0::rat) \<le> of_nat n * ratio" by simp
  have o1: "overflows (of_int target_sample_rate / of_int sample_rate) \<longleftrightarrow> 2 ^ 1024 \<le> ratio"
    unfolding assms(4) by (rule overflows_nonneg [OF q])
  have o2: "overflows (of_nat n * ratio) \<longleftrightarrow> 2 ^ 1024 \<le> product"
    unfolding assms(5) by (rule overflows_nonneg [OF p])
  show ?thesis
    using assms(2) o1 o2 float_of_length [OF assms(1)]
    unfolding target_length_of_def int_truediv_def int_of_product_def
      assms(4) [symmetric] assms(5) [symmetric]
    by (auto simp add: assms(4) [symmetric] assms(5) [symmetric])
qed

lemma resample_of_target_length:
  assumes "samples \<noteq> []" and "length samples < 2 ^ 53"
    and "target_length_of (length samples) sample_rate target_sample_rate = Inr (int n)"
  shows "resample_audio_data np samples sample_rate target_sample_rate =
           Inr (map (\<lambda>i. interp_at np samples
                      (if i = 0 then 0
                       else if i = n - 1 then of_nat (length samples)
                       else linspace_at np 0 (of_nat (length samples)) n i))
                  [0..<n])"
  using assms(1) fl64_of_nat [OF assms(2)]
  unfolding resample_audio_data_def assms(3) np_linspace_def np_interp_def
  by (simp add: Let_def o_def)

lemma interp_at_ends:
  assumes "samples \<noteq> []"
  shows "interp_at np samples 0 = hd samples"
    and "interp_at np samples (of_nat (length samples)) = last samples"
proof -
  show "interp_at np samples 0 = hd samples" by (simp add: interp_at_def)
  have "0 < length samples" using assms by simp
  then have "\<not> (of_nat (length samples) :: rat) \<le> 0" by simp
  moreover have "(of_nat (length samples - 1) :: rat) \<le> of_nat (length samples)"
    by (simp only: of_nat_le_iff diff_le_self)
  ultimately show "interp_at np samples (of_nat (length samples)) = last samples"
    unfolding interp_at_def by (simp only: if_False if_True)
qed


lemma target_length_value:
  assumes "n < 2 ^ 53" and "0 < sample_rate" and "0 < target_sample_rate"
    and "fl64 (of_int target_sample_rate / of_int sample_rate) = ratio"
    and "fl64 (of_nat n * ratio) = product"
    and "ratio < 2 ^ 1024" and "product < 2 ^ 1024"
    and "python_int product = int m"
  shows "target_length_of n sample_rate target_sample_rate = Inr (int m)"
  using target_length_cases [OF assms(1,2,3) assms(4) [symmetric] assms(5) [symmetric]]
    assms(6,7,8)
  by simp

lemma resample_to_none:
  assumes "samples \<noteq> []" and "length samples < 2 ^ 53"
    and "target_length_of (length samples) sample_rate target_sample_rate = Inr (int 0)"
  shows "resample_audio_data np samples sample_rate target_sample_rate = Inr []"
  using resample_of_target_length [OF assms, of np] by simp

lemma resample_to_two:
  assumes "samples \<noteq> []" and "length samples < 2 ^ 53"
    and "target_length_of (length samples) sample_rate target_sample_rate = Inr (int 2)"
  shows "resample_audio_data np samples sample_rate target_sample_rate =
           Inr [hd samples, last samples]"
proof -
  have "[0..<2] = [0, Suc 0]" by (simp add: upt_rec)
  then show ?thesis
    using resample_of_target_length [OF assms, of np] interp_at_ends [OF assms(1), of np]
    by simp
qed









lemma vad_detection_flow_calls:
  "snd (vad_detection_flow get_speech_timestamps event_id b td) = [audio_window_of b]"
  by (simp add: vad_detection_flow_def Let_def)

text \<open>
  C9, as stated, fails: the append handler has no check of the buffer's length. A chunk of
  one sample resamples to no sample at all (\<open>int(1 * 0.666...) = 0\<close>); appended to an empty
  active buffer with turn detection configured, it leaves the buffer at size 0, and the
  VAD is called on the empty window.
\<close>

theorem append_evaluates_any_length_counterexample:
  "size_buf \<lparr>buf_id = ''item_0'', data = [],
             vad_state = \<lparr>audio_start_ms = None, audio_end_ms = None\<rparr>\<rparr> = 0 \<and>
   handle_input_audio_buffer_append real_arith no_speech ''event_1'' [1 / 2]
     \<lparr>input_audio_buffers =
        [(''item_0'', \<lparr>buf_id = ''item_0'', data = [],
                       vad_state = \<lparr>audio_start_ms = None, audio_end_ms = None\<rparr>\<rparr>)],
      conversation = [], pubsub = [],
      turn_detection = Some \<lparr>threshold = 9 / 10, prefix_padding_ms = 0,
                              silence_duration_ms = 550, create_response = False\<rparr>\<rparr> =
   Inr (\<lparr>input_audio_buffers =
           [(''item_0'', \<lparr>buf_id = ''item_0'', data = [],
                          vad_state = \<lparr>audio_start_ms = None, audio_end_ms = None\<rparr>\<rparr>)],
         conversation = [], pubsub = [],
         turn_detection = Some \<lparr>threshold = 9 / 10, prefix_padding_ms = 0,
                                 silence_duration_ms = 550, create_response = False\<rparr>\<rparr>,
        [[]])"
proof -
  have q: "fl64 (of_int 16000 / of_int 24000) = 6004799503160661 / 9007199254740992"
    by code_simp
  have p: "fl64 (of_nat 1 * (6004799503160661 / 9007199254740992)) =
             6004799503160661 / 9007199254740992"
    by code_simp
  have i: "python_int (6004799503160661 / 9007199254740992) = int 0" by code_simp
  have l: "length [1 / 2 :: sample] = 1" by simp
  have "target_length_of 1 24000 16000 = Inr (int 0)"
    by (rule target_length_value [OF _ _ _ q p _ _ i]) simp_all
  then have t: "target_length_of (length [1 / 2 :: sample]) 24000 16000 = Inr (int 0)"
    by (simp only: l)
  have r: "resample_audio_data real_arith [1 / 2] 24000 16000 = Inr []"
    by (rule resample_to_none [OF _ _ t]) simp_all
  show ?thesis
    unfolding handle_input_audio_buffer_append_def r no_speech_def
    by (simp add: last_key_def append_buf_def dict_set_def vad_detection_flow_def Let_def
        audio_window_of_def to_ms_speech_timestamps_def size_buf_def)
qed

text \<open>
  C9, amended. For every append processed while turn detection is configured, on a chunk
  that resamples without error, the handler calls the VAD exactly once, on the trailing
  window of the active buffer as it is after the append, whatever the length of that
  buffer.
\<close>

theorem append_evaluates_any_length:
  assumes "input_audio_buffers ctx \<noteq> []"
    and "distinct (map fst (input_audio_buffers ctx))"
    and "turn_detection ctx = Some td"
    and "resample_audio_data np decoded 24000 16000 = Inr audio_chunk"
  shows "\<exists>ctx'. handle_input_audio_buffer_append np get_speech_timestamps gen_item_id decoded ctx =
           Inr (ctx', [audio_window_of
                         (append_buf audio_chunk (snd (last (input_audio_buffers ctx))))])"
proof -
  define b1 where "b1 = append_buf audio_chunk (snd (last (input_audio_buffers ctx)))"
  have look: "map_of (input_audio_buffers ctx) (fst (last (input_audio_buffers ctx))) =
          Some (snd (last (input_audio_buffers ctx)))"
    by (rule map_of_last_key [OF assms(1,2)])
  obtain vad_event b2 vad_calls
    where flow: "vad_detection_flow get_speech_timestamps gen_item_id b1 td =
                   ((vad_event, b2), vad_calls)"
    by (metis surj_pair)
  with vad_detection_flow_calls [of get_speech_timestamps gen_item_id b1 td]
  have calls: "vad_calls = [audio_window_of b1]" by simp
  show ?thesis
    using assms(1,3,4) look flow calls
    unfolding handle_input_audio_buffer_append_def last_key_def b1_def [symmetric]
    by (simp add: Let_def b1_def [symmetric])
qed

text \<open>
  C9 amended, at a chunk of three samples appended to an empty active buffer.
\<close>

theorem append_evaluates_any_length_witness:
  "handle_input_audio_buffer_append real_arith (one_span 16 32) ''event_1'' [1, 2, 4]
     \<lparr>input_audio_buffers =
        [(''item_0'', \<lparr>buf_id = ''item_0'', data = [],
                       vad_state = \<lparr>audio_start_ms = None, audio_end_ms = None\<rparr>\<rparr>)],
      conversation = [], pubsub = [],
      turn_detection = Some \<lparr>threshold = 9 / 10, prefix_padding_ms = 0,
                              silence_duration_ms = 550, create_response = False\<rparr>\<rparr> =
   Inr (\<lparr>input_audio_buffers =
           [(''item_0'', \<lparr>buf_id = ''item_0'', data = [1, 4],
                          vad_state = \<lparr>audio_start_ms = Some 1, audio_end_ms = None\<rparr>\<rparr>)],
         conversation = [],
         pubsub = [InputAudioBufferSpeechStartedEvent ''event_1'' ''item_0'' 1],
         turn_detection = Some \<lparr>threshold = 9 / 10, prefix_padding_ms = 0,
                                 silence_duration_ms = 550, create_response = False\<rparr>\<rparr>,
        [[1, 4]])"
proof -
  let ?ctx = "\<lparr>input_audio_buffers =
        [(''item_0'', \<lparr>buf_id = ''item_0'', data = [],
                       vad_state = \<lparr>audio_start_ms = None, audio_end_ms = None\<rparr>\<rparr>)],
      conversation = [], pubsub = [],
      turn_detection = Some \<lparr>threshold = 9 / 10, prefix_padding_ms = 0,
                              silence_duration_ms = 550, create_response = False\<rparr>\<rparr>"
  have h1: "input_audio_buffers ?ctx \<noteq> []" by simp
  have h2: "distinct (map fst (input_audio_buffers ?ctx))" by simp
  have h3: "turn_detection ?ctx = Some \<lparr>threshold = 9 / 10, prefix_padding_ms = 0,
                              silence_duration_ms = 550, create_response = False\<rparr>" by simp
  have q: "fl64 (of_int 16000 / of_int 24000) = 6004799503160661 / 9007199254740992"
    by code_simp
  have p: "fl64 (of_nat 3 * (6004799503160661 / 9007199254740992)) = 2"
    by code_simp
  have i: "python_int 2 = int 2" by code_simp
  have l: "length [1, 2, 4 :: sample] = 3" by simp
  have "target_length_of 3 24000 16000 = Inr (int 2)"
    by (rule target_length_value [OF _ _ _ q p _ _ i]) simp_all
  then have t: "target_length_of (length [1, 2, 4 :: sample]) 24000 16000 = Inr (int 2)"
    by (simp only: l)
  have h4: "resample_audio_data real_arith [1, 2, 4] 24000 16000 = Inr [1, 4]"
    using resample_to_two [OF _ _ t, of real_arith] by simp
  from append_evaluates_any_length [OF h1 h2 h3 h4, of "one_span 16 32" "''event_1''"]
  obtain ctx' where c: "handle_input_audio_buffer_append real_arith (one_span 16 32) ''event_1'' [1, 2, 4] ?ctx =
      Inr (ctx', [[1, 4]])"
    by (auto simp add: append_buf_def audio_window_of_def MAX_VAD_WINDOW_SIZE_SAMPLES_def)
  have "fst (projr (handle_input_audio_buffer_append real_arith (one_span 16 32) ''event_1'' [1, 2, 4] ?ctx)) =
      \<lparr>input_audio_buffers =
           [(''item_0'', \<lparr>buf_id = ''item_0'', data = [1, 4],
                          vad_state = \<lparr>audio_start_ms = Some 1, audio_end_ms = None\<rparr>\<rparr>)],
         conversation = [],
         pubsub = [InputAudioBufferSpeechStartedEvent ''event_1'' ''item_0'' 1],
         turn_detection = Some \<lparr>threshold = 9 / 10, prefix_padding_ms = 0,
                                 silence_duration_ms = 550, create_response = False\<rparr>\<rparr>"
    unfolding handle_input_audio_buffer_append_def h4 one_span_def
    by (simp add: last_key_def append_buf_def dict_set_def vad_detection_flow_def Let_def
        audio_window_of_def to_ms_speech_timestamps_def size_buf_def duration_ms_def
        MS_SAMPLE_RATE_def MAX_VAD_WINDOW_SIZE_SAMPLES_def publish_nowait_def vad_options_of_def)
  with c show ?thesis by simp
qed

lemma commit_nonempty_conversation:
  assumes "input_audio_buffers ctx \<noteq> []"
    and "distinct (map fst (input_audio_buffers ctx))"
    and "size_buf (snd (last (input_audio_buffers ctx))) \<noteq> 0"
    and "conversation ctx \<noteq> []"
    and "new_id \<notin> fst ` set (input_audio_buffers ctx)"
  shows "handle_input_audio_buffer_commit event_id gen_item_id new_id ctx =
           Inr (ctx\<lparr>pubsub := pubsub ctx @
                      [InputAudioBufferCommittedEvent gen_item_id
                         (Some (fst (last (conversation ctx))))
                         (fst (last (input_audio_buffers ctx)))],
                    input_audio_buffers := input_audio_buffers ctx @
                      [(new_id, \<lparr>buf_id = new_id, data = [],
                                 vad_state = \<lparr>audio_start_ms = None, audio_end_ms = None\<rparr>\<rparr>)]\<rparr>)
         \<and> new_id \<noteq> fst (last (input_audio_buffers ctx))"
proof -
  have look: "map_of (input_audio_buffers ctx) (fst (last (input_audio_buffers ctx))) =
          Some (snd (last (input_audio_buffers ctx)))"
    by (rule map_of_last_key [OF assms(1,2)])
  have "fst (last (input_audio_buffers ctx)) \<in> fst ` set (input_audio_buffers ctx)"
    using assms(1) by simp
  then have neq: "new_id \<noteq> fst (last (input_audio_buffers ctx))"
    using assms(5) by auto
  have "handle_input_audio_buffer_commit event_id gen_item_id new_id ctx =
           Inr (ctx\<lparr>pubsub := pubsub ctx @
                      [InputAudioBufferCommittedEvent gen_item_id
                         (Some (fst (last (conversation ctx))))
                         (fst (last (input_audio_buffers ctx)))],
                    input_audio_buffers := input_audio_buffers ctx @
                      [(new_id, \<lparr>buf_id = new_id, data = [],
                                 vad_state = \<lparr>audio_start_ms = None, audio_end_ms = None\<rparr>\<rparr>)]\<rparr>)"
    using assms(1,3,4) look dict_set_fresh [OF assms(5)]
    unfolding handle_input_audio_buffer_commit_def last_key_def publish_nowait_def
      new_InputAudioBuffer_def new_InputAudioBufferCommittedEvent_def
    by (simp add: Let_def)
  with neq show ?thesis by simp
qed


text \<open>
  C6 says that commit on a non-empty active buffer publishes a committed event whose
  \<open>previous_item_id\<close> is null when the conversation is empty, and then installs a new
  buffer. The code passes \<open>None\<close> to the event's constructor, which rejects it: for a
  session with audio in its active buffer and no conversation item yet, the handler raises
  \<open>ValidationError\<close>, publishes nothing and installs no buffer. With a conversation item
  present the handler does what C6 says (\<open>commit_nonempty_conversation\<close>).
\<close>

theorem commit_empty_conversation_raises:
  "handle_input_audio_buffer_commit ''event_1'' ''item_2'' ''item_3''
     \<lparr>input_audio_buffers =
        [(''item_0'', \<lparr>buf_id = ''item_0'', data = [0, 1 / 2],
                       vad_state = \<lparr>audio_start_ms = None, audio_end_ms = None\<rparr>\<rparr>)],
      conversation = [], pubsub = [], turn_detection = None\<rparr> =
   Inl ValidationError"
  by (simp add: handle_input_audio_buffer_commit_def last_key_def size_buf_def
      new_InputAudioBufferCommittedEvent_def)

lemma clear_with_unused_id:
  assumes "input_audio_buffers ctx \<noteq> []"
    and "distinct (map fst (input_audio_buffers ctx))"
    and "new_id \<notin> fst ` set (input_audio_buffers ctx)"
  shows "handle_input_audio_buffer_clear gen_item_id new_id ctx =
           Inr (ctx\<lparr>input_audio_buffers := butlast (input_audio_buffers ctx) @
                      [(new_id, \<lparr>buf_id = new_id, data = [],
                                 vad_state = \<lparr>audio_start_ms = None, audio_end_ms = None\<rparr>\<rparr>)],
                    pubsub := pubsub ctx @ [InputAudioBufferClearedEvent gen_item_id]\<rparr>)
         \<and> fst (last (input_audio_buffers ctx)) \<notin>
             fst ` set (butlast (input_audio_buffers ctx) @
                      [(new_id, \<lparr>buf_id = new_id, data = [],
                                 vad_state = \<lparr>audio_start_ms = None, audio_end_ms = None\<rparr>\<rparr>)])
         \<and> new_id \<noteq> fst (last (input_audio_buffers ctx))"
proof -
  have "fst (last (input_audio_buffers ctx)) \<in> fst ` set (input_audio_buffers ctx)"
    using assms(1) by simp
  then have neq: "new_id \<noteq> fst (last (input_audio_buffers ctx))"
    using assms(3) by auto
  have fresh: "new_id \<notin> fst ` set (butlast (input_audio_buffers ctx))"
    using assms(3) by (auto dest: in_set_butlastD)
  have gone: "fst (last (input_audio_buffers ctx)) \<notin> fst ` set (butlast (input_audio_buffers ctx))"
    by (rule last_key_not_in_butlast [OF assms(1,2)])
  have "handle_input_audio_buffer_clear gen_item_id new_id ctx =
           Inr (ctx\<lparr>input_audio_buffers := butlast (input_audio_buffers ctx) @
                      [(new_id, \<lparr>buf_id = new_id, data = [],
                                 vad_state = \<lparr>audio_start_ms = None, audio_end_ms = None\<rparr>\<rparr>)],
                    pubsub := pubsub ctx @ [InputAudioBufferClearedEvent gen_item_id]\<rparr>)"
    using assms(1) dict_set_fresh [OF fresh]
    unfolding handle_input_audio_buffer_clear_def popitem_def publish_nowait_def
      new_InputAudioBuffer_def
    by (simp add: Let_def)
  with neq gone show ?thesis by auto
qed


lemma id_of_inj: "id_of a = id_of b \<longleftrightarrow> a = b"
  by (simp add: id_of_def)

lemma well_formed_unused:
  assumes "well_formed s" and "ids_issued s \<le> m"
  shows "id_of m \<notin> fst ` set (input_audio_buffers (session_ctx s))"
proof
  assume "id_of m \<in> fst ` set (input_audio_buffers (session_ctx s))"
  with assms(1) obtain j where "j < ids_issued s" and "id_of m = id_of j"
    unfolding well_formed_def by blast
  with assms(2) show False by (simp add: id_of_inj)
qed

lemma map_of_key: "map_of d k = Some b \<Longrightarrow> k \<in> fst ` set d"
  by (metis domI dom_map_of_conv_image_fst)

lemma dict_set_keys:
  "k \<in> fst ` set d \<Longrightarrow> map fst (dict_set k v d) = map fst d"
  by (simp add: dict_set_def update_keys)

lemma dict_set_twice_keys:
  assumes "k \<in> fst ` set d"
  shows "map fst (dict_set k v (dict_set k w d)) = map fst d"
proof -
  have w: "map fst (dict_set k w d) = map fst d" by (rule dict_set_keys [OF assms])
  then have "set (map fst (dict_set k w d)) = set (map fst d)" by simp
  with assms have "k \<in> fst ` set (dict_set k w d)" by simp
  then show ?thesis using w by (simp add: dict_set_keys)
qed

lemma append_keeps_keys:
  assumes "handle_input_audio_buffer_append np get_speech_timestamps gen_item_id decoded ctx =
             Inr (ctx', vad_calls)"
  shows "map fst (input_audio_buffers ctx') = map fst (input_audio_buffers ctx)"
proof -
  have one: "map fst (dict_set k v d) = map fst d" if "(k, b) \<in> set d"
    for k b v and d :: "(string \<times> InputAudioBuffer) list"
    using that by (intro dict_set_keys) force
  have two: "map fst (dict_set k v (dict_set k w d)) = map fst d" if "(k, b) \<in> set d"
    for k b v w and d :: "(string \<times> InputAudioBuffer) list"
    using that by (intro dict_set_twice_keys) force
  show ?thesis
    using assms
    unfolding handle_input_audio_buffer_append_def publish_nowait_def
    by (auto simp add: Let_def one two
        split: sum.splits option.splits prod.splits dest!: map_of_SomeD)
qed


lemma commit_buffers:
  assumes "handle_input_audio_buffer_commit event_id gen_item_id new_id ctx = Inr ctx'"
    and "new_id \<notin> fst ` set (input_audio_buffers ctx)"
  shows "input_audio_buffers ctx' = input_audio_buffers ctx \<or>
         input_audio_buffers ctx' =
           input_audio_buffers ctx @ [(new_id, new_InputAudioBuffer new_id)]"
  using assms(1) dict_set_fresh [OF assms(2)]
  unfolding handle_input_audio_buffer_commit_def publish_nowait_def
  by (auto simp add: Let_def split: option.splits if_splits sum.splits)

lemma well_formed_extend:
  assumes "well_formed s" and "ids_issued s \<le> m" and "m < n"
    and "input_audio_buffers ctx' =
           input_audio_buffers (session_ctx s) @ [(id_of m, b)]"
  shows "well_formed \<lparr>session_ctx = ctx', ids_issued = n\<rparr>"
proof -
  have fresh: "id_of m \<notin> fst ` set (input_audio_buffers (session_ctx s))"
    by (rule well_formed_unused [OF assms(1,2)])
  have "\<exists>j<n. k = id_of j" if "k \<in> fst ` set (input_audio_buffers (session_ctx s))" for k
  proof -
    from assms(1) that obtain j where "j < ids_issued s" "k = id_of j"
      unfolding well_formed_def by blast
    with assms(2,3) show ?thesis by (intro exI [of _ j]) simp
  qed
  with assms(1,3,4) fresh show ?thesis
    unfolding well_formed_def by auto
qed

lemma well_formed_same_keys:
  assumes "well_formed s" and "ids_issued s \<le> n"
    and "map fst (input_audio_buffers ctx') = map fst (input_audio_buffers (session_ctx s))"
  shows "well_formed \<lparr>session_ctx = ctx', ids_issued = n\<rparr>"
proof -
  have "set (map fst (input_audio_buffers ctx')) =
          set (map fst (input_audio_buffers (session_ctx s)))"
    by (simp only: assms(3))
  then have keys: "fst ` set (input_audio_buffers ctx') =
          fst ` set (input_audio_buffers (session_ctx s))" by simp
  have ne: "input_audio_buffers ctx' \<noteq> []"
    using assms(1,3) unfolding well_formed_def by (metis map_is_Nil_conv)
  have "\<exists>j<n. k = id_of j" if "k \<in> fst ` set (input_audio_buffers (session_ctx s))" for k
  proof -
    from assms(1) that obtain j where "j < ids_issued s" "k = id_of j"
      unfolding well_formed_def by blast
    with assms(2) show ?thesis by (intro exI [of _ j]) simp
  qed
  with assms(1) ne keys show ?thesis
    unfolding well_formed_def by (simp add: assms(3))
qed

lemma reachable_well_formed:
  "reachable s \<Longrightarrow> well_formed s"
proof (induction rule: reachable.induct)
  case (start td)
  show ?case
    by (auto simp add: well_formed_def initial_session_def)
next
  case (issued s)
  have "\<exists>j<ids_issued s + 1. k = id_of j"
    if "k \<in> fst ` set (input_audio_buffers (session_ctx s))" for k
  proof -
    from issued.IH that obtain j where "j < ids_issued s" "k = id_of j"
      unfolding well_formed_def by blast
    then show ?thesis by (intro exI [of _ j]) simp
  qed
  with issued.IH show ?case
    unfolding well_formed_def by simp
next
  case (append s np get_speech_timestamps decoded s')
  from append.hyps(2) obtain ctx' vad_calls
    where h: "handle_input_audio_buffer_append np get_speech_timestamps
                (id_of (ids_issued s)) decoded (session_ctx s) = Inr (ctx', vad_calls)"
      and s': "s' = \<lparr>session_ctx = ctx', ids_issued = ids_issued s + 1\<rparr>"
    unfolding session_append_def by (auto split: sum.splits prod.splits)
  from well_formed_same_keys [OF append.IH _ append_keeps_keys [OF h]]
  show ?case by (simp add: s')
next
  case (commit s s')
  from commit.hyps(2) obtain ctx'
    where h: "handle_input_audio_buffer_commit (id_of (ids_issued s)) (id_of (ids_issued s))
                (id_of (ids_issued s + 1)) (session_ctx s) = Inr ctx'"
      and s': "s' = \<lparr>session_ctx = ctx', ids_issued = ids_issued s + 2\<rparr>"
    unfolding session_commit_def by (auto split: sum.splits)
  have fresh: "id_of (ids_issued s + 1) \<notin> fst ` set (input_audio_buffers (session_ctx s))"
    by (rule well_formed_unused [OF commit.IH]) simp
  from commit_buffers [OF h fresh] show ?case
  proof
    assume "input_audio_buffers ctx' = input_audio_buffers (session_ctx s)"
    then show ?thesis
      using well_formed_same_keys [OF commit.IH, of "ids_issued s + 2" ctx']
      by (simp add: s')
  next
    assume "input_audio_buffers ctx' = input_audio_buffers (session_ctx s) @
              [(id_of (ids_issued s + 1), new_InputAudioBuffer (id_of (ids_issued s + 1)))]"
    then show ?thesis
      using well_formed_extend [OF commit.IH, of "ids_issued s + 1" "ids_issued s + 2" ctx']
      by (simp add: s')
  qed
next
  case (clear s s')
  have wf: "well_formed s" by (rule clear.IH)
  then have ne: "input_audio_buffers (session_ctx s) \<noteq> []"
    and di: "distinct (map fst (input_audio_buffers (session_ctx s)))"
    unfolding well_formed_def by simp_all
  have fresh: "id_of (ids_issued s + 1) \<notin> fst ` set (input_audio_buffers (session_ctx s))"
    by (rule well_formed_unused [OF wf]) simp
  from clear_with_unused_id [OF ne di fresh, of "id_of (ids_issued s)"] clear.hyps(2)
  have s': "s' = \<lparr>session_ctx = (session_ctx s)
                 \<lparr>input_audio_buffers := butlast (input_audio_buffers (session_ctx s)) @
                    [(id_of (ids_issued s + 1),
                      \<lparr>buf_id = id_of (ids_issued s + 1), data = [],
                       vad_state = \<lparr>audio_start_ms = None, audio_end_ms = None\<rparr>\<rparr>)],
                  pubsub := pubsub (session_ctx s) @
                    [InputAudioBufferClearedEvent (id_of (ids_issued s))]\<rparr>,
               ids_issued = ids_issued s + 2\<rparr>"
    unfolding session_clear_def by auto
  have "\<exists>j<ids_issued s + 2. k = id_of j"
    if "k \<in> fst ` set (butlast (input_audio_buffers (session_ctx s)))" for k
  proof -
    from that have "k \<in> fst ` set (input_audio_buffers (session_ctx s))"
      by (auto dest: in_set_butlastD)
    with wf obtain j where "j < ids_issued s" "k = id_of j"
      unfolding well_formed_def by blast
    then show ?thesis by (intro exI [of _ j]) simp
  qed
  moreover have "distinct (map fst (butlast (input_audio_buffers (session_ctx s))))"
    using di by (simp add: map_butlast distinct_butlast)
  moreover have "id_of (ids_issued s + 1) \<notin>
                   fst ` set (butlast (input_audio_buffers (session_ctx s)))"
    using fresh by (auto dest: in_set_butlastD)
  ultimately show ?case
    unfolding s' well_formed_def by auto
next
  case (speech_stopped s e i t)
  have fresh: "id_of (ids_issued s) \<notin> fst ` set (input_audio_buffers (session_ctx s))"
    by (rule well_formed_unused [OF speech_stopped.IH]) simp
  have "input_audio_buffers
          (handle_input_audio_buffer_speech_stopped (id_of (ids_issued s))
             (id_of (ids_issued s + 1)) (InputAudioBufferSpeechStoppedEvent e i t)
             (session_ctx s)) =
        input_audio_buffers (session_ctx s) @
          [(id_of (ids_issued s), new_InputAudioBuffer (id_of (ids_issued s)))]"
    using dict_set_fresh [OF fresh]
    by (simp add: handle_input_audio_buffer_speech_stopped_def publish_nowait_def Let_def)
  from well_formed_extend [OF speech_stopped.IH _ _ this, of "ids_issued s + 2"]
  show ?case by (simp add: session_speech_stopped_def)
next
  case (committed s e p i)
  have "map fst (input_audio_buffers
          (handle_input_audio_buffer_committed (id_of (ids_issued s))
             (InputAudioBufferCommittedEvent e p i) (session_ctx s))) =
        map fst (input_audio_buffers (session_ctx s))"
    by (simp add: handle_input_audio_buffer_committed_def publish_nowait_def Let_def)
  from well_formed_same_keys [OF committed.IH _ this, of "ids_issued s + 1"]
  show ?case by (simp add: session_committed_def)
qed


lemma commit_rotates_in_session:
  assumes "reachable s"
    and "size_buf (snd (last (input_audio_buffers (session_ctx s)))) \<noteq> 0"
    and "conversation (session_ctx s) \<noteq> []"
  shows "session_commit s =
           Inr \<lparr>session_ctx = (session_ctx s)
                  \<lparr>pubsub := pubsub (session_ctx s) @
                     [InputAudioBufferCommittedEvent (id_of (ids_issued s))
                        (Some (fst (last (conversation (session_ctx s)))))
                        (fst (last (input_audio_buffers (session_ctx s))))],
                   input_audio_buffers := input_audio_buffers (session_ctx s) @
                     [(id_of (ids_issued s + 1),
                       \<lparr>buf_id = id_of (ids_issued s + 1), data = [],
                        vad_state = \<lparr>audio_start_ms = None, audio_end_ms = None\<rparr>\<rparr>)]\<rparr>,
                ids_issued = ids_issued s + 2\<rparr>
         \<and> id_of (ids_issued s + 1) \<noteq> fst (last (input_audio_buffers (session_ctx s)))"
proof -
  have wf: "well_formed s" by (rule reachable_well_formed [OF assms(1)])
  then have ne: "input_audio_buffers (session_ctx s) \<noteq> []"
    and di: "distinct (map fst (input_audio_buffers (session_ctx s)))"
    unfolding well_formed_def by simp_all
  have fresh: "id_of (ids_issued s + 1) \<notin> fst ` set (input_audio_buffers (session_ctx s))"
    by (rule well_formed_unused [OF wf]) simp
  from commit_nonempty_conversation [OF ne di assms(2,3) fresh,
      of "id_of (ids_issued s)" "id_of (ids_issued s)"]
  show ?thesis
    unfolding session_commit_def by simp
qed

text \<open>
  C7. In every session that the router can reach, whatever its active buffer holds, clear
  removes the active buffer's entry from the mapping, publishes exactly one cleared event
  and no error, and adds a new empty buffer at the end of the mapping; the removed id is
  no longer a key of the mapping, and the id of the new buffer differs from it.
\<close>

theorem clear_installs_new_buffer:
  assumes "reachable s"
  shows "session_clear s =
           Inr \<lparr>session_ctx = (session_ctx s)
                  \<lparr>input_audio_buffers := butlast (input_audio_buffers (session_ctx s)) @
                     [(id_of (ids_issued s + 1),
                       \<lparr>buf_id = id_of (ids_issued s + 1), data = [],
                        vad_state = \<lparr>audio_start_ms = None, audio_end_ms = None\<rparr>\<rparr>)],
                   pubsub := pubsub (session_ctx s) @
                     [InputAudioBufferClearedEvent (id_of (ids_issued s))]\<rparr>,
                ids_issued = ids_issued s + 2\<rparr>
         \<and> fst (last (input_audio_buffers (session_ctx s))) \<notin>
             fst ` set (butlast (input_audio_buffers (session_ctx s)) @
                     [(id_of (ids_issued s + 1),
                       \<lparr>buf_id = id_of (ids_issued s + 1), data = [],
                        vad_state = \<lparr>audio_start_ms = None, audio_end_ms = None\<rparr>\<rparr>)])
         \<and> id_of (ids_issued s + 1) \<noteq> fst (last (input_audio_buffers (session_ctx s)))"
proof -
  have wf: "well_formed s" by (rule reachable_well_formed [OF assms])
  then have ne: "input_audio_buffers (session_ctx s) \<noteq> []"
    and di: "distinct (map fst (input_audio_buffers (session_ctx s)))"
    unfolding well_formed_def by simp_all
  have fresh: "id_of (ids_issued s + 1) \<notin> fst ` set (input_audio_buffers (session_ctx s))"
    by (rule well_formed_unused [OF wf]) simp
  from clear_with_unused_id [OF ne di fresh, of "id_of (ids_issued s)"]
  show ?thesis
    unfolding session_clear_def by simp
qed

text \<open>
  C7, at a session whose first buffer was rotated by a speech_stopped event: the second
  buffer, still empty, is cleared.
\<close>

theorem clear_installs_new_buffer_witness:
  "reachable (session_speech_stopped
                (InputAudioBufferSpeechStoppedEvent ''event_1'' ''item_'' 10)
                (initial_session None)) \<and>
   session_clear (session_speech_stopped
                    (InputAudioBufferSpeechStoppedEvent ''event_1'' ''item_'' 10)
                    (initial_session None)) =
     Inr \<lparr>session_ctx =
            \<lparr>input_audio_buffers =
               [(''item_'', \<lparr>buf_id = ''item_'', data = [],
                             vad_state = \<lparr>audio_start_ms = None, audio_end_ms = None\<rparr>\<rparr>),
                (''item_1111'', \<lparr>buf_id = ''item_1111'', data = [],
                                 vad_state = \<lparr>audio_start_ms = None,
                                              audio_end_ms = None\<rparr>\<rparr>)],
             conversation = [],
             pubsub = [InputAudioBufferCommittedEvent ''item_11'' (Some ''IDK'') ''item_'',
                       InputAudioBufferClearedEvent ''item_111''],
             turn_detection = None\<rparr>,
          ids_issued = 5\<rparr>"
proof -
  have r: "reachable (session_speech_stopped
                (InputAudioBufferSpeechStoppedEvent ''event_1'' ''item_'' 10)
                (initial_session None))"
    by (intro reachable.speech_stopped reachable.start)
  have "replicate 4 (CHR ''1'') = ''1111''" "replicate 3 (CHR ''1'') = ''111''"
    "replicate 2 (CHR ''1'') = ''11''"
    by (simp_all add: numeral_eq_Suc)
  with clear_installs_new_buffer [OF r] r show ?thesis
    by (simp add: session_speech_stopped_def initial_session_def id_of_def
        handle_input_audio_buffer_speech_stopped_def new_InputAudioBuffer_def
        dict_set_def last_key_def publish_nowait_def numeral_eq_Suc)
qed

end
